theory Spec2Isabelle
  imports Complex_Main
begin

section \<open>Data model\<close>

text \<open>
  The optimizer of \<^verbatim>\<open>pet_mk_iv_control/src/mpc.cpp\<close>. A C++ \<^verbatim>\<open>double\<close> is modelled
  as a \<^typ>\<open>real\<close>: rounding, infinities and NaN are not represented. A C++ \<^verbatim>\<open>int\<close>
  is modelled as an \<^typ>\<open>int\<close>; the one conversion of the source that can leave the range
  of a 32-bit \<^verbatim>\<open>int\<close> (from a vector size) is written out in \<open>int_of_size_t\<close>.
\<close>

subsection \<open>Messages of the transport layer\<close>

record Header =
  stamp :: nat
  frame_id :: string

record Point =
  point_x :: real
  point_y :: real
  point_z :: real

record Quaternion =
  quat_x :: real
  quat_y :: real
  quat_z :: real
  quat_w :: real

record Pose =
  pose_position :: Point
  pose_orientation :: Quaternion

record PoseStamped =
  pose_header :: Header
  pose :: Pose

record Vector3 =
  vec_x :: real
  vec_y :: real
  vec_z :: real

record Twist =
  linear :: Vector3
  angular :: Vector3

record TwistStamped =
  twist_header :: Header
  twist :: Twist

record Path =
  path_header :: Header
  poses :: "PoseStamped list"

subsection \<open>Fixed-size vectors and matrices\<close>

text \<open>
  \<^verbatim>\<open>Pose2D<double>::RotationType\<close> is a 2x2 matrix (a parameter block of size 4),
  \<^verbatim>\<open>PointType\<close> a 2-vector and \<^verbatim>\<open>TangentType\<close> a 3-vector, whose components are,
  in storage order, the angular rate, the forward velocity and the lateral velocity.
\<close>

type_synonym Matrix2d = "real \<times> real \<times> real \<times> real"
type_synonym Vector2d = "real \<times> real"
type_synonym Vector3d = "real \<times> real \<times> real"

definition Matrix2d_Identity :: Matrix2d where
  "Matrix2d_Identity = (1, 0, 0, 1)"

definition Vector2d_Zero :: Vector2d where
  "Vector2d_Zero = (0, 0)"

definition Vector3d_Zero :: Vector3d where
  "Vector3d_Zero = (0, 0, 0)"

definition angular_rate :: "Vector3d \<Rightarrow> real" where
  "angular_rate t = fst t"

definition forward_velocity :: "Vector3d \<Rightarrow> real" where
  "forward_velocity t = fst (snd t)"

definition lateral_velocity :: "Vector3d \<Rightarrow> real" where
  "lateral_velocity t = snd (snd t)"

record Pose2D =
  rotation :: Matrix2d
  position :: Vector2d

subsection \<open>Options and optimizer state\<close>

record Options =
  max_num_poses :: int
  time_step :: real
  max_penalty_iterations :: int
  penalty_increase_factor :: real
  max_constraint_cost :: real
  reference_loss_factor :: real
  velocity_loss_factor :: real

text \<open>The default member initialisers of \<^verbatim>\<open>Mpc::Options\<close> in \<^verbatim>\<open>mpc.h\<close>.\<close>

definition default_Options :: Options where
  "default_Options =
     \<lparr>max_num_poses = 100, time_step = 1 / 100, max_penalty_iterations = 8,
      penalty_increase_factor = 5, max_constraint_cost = 1 / 100,
      reference_loss_factor = 20, velocity_loss_factor = 1\<rparr>"

text \<open>
  The members of \<^verbatim>\<open>class Mpc\<close>. The kinematic model is stateless (its \<^verbatim>\<open>propagate\<close> is
  called as a static function) and the two fixed loss functions are determined by the
  options, so they carry no field. The loss-function wrapper
  \<^verbatim>\<open>m_constraint_penalty_coefficient_handle\<close> holds \<open>None\<close> for the null loss it is
  constructed with and \<open>Some a\<close> for a \<^verbatim>\<open>ScaledLoss\<close> with scale \<open>a\<close>.
  A \<^verbatim>\<open>ceres::ResidualBlockId\<close> is modelled as the position of the residual block in the
  problem.
\<close>

record mpc =
  m_options :: Options
  m_rotations :: "Matrix2d list"
  m_positions :: "Vector2d list"
  m_reference_rotations :: "Matrix2d list"
  m_reference_positions :: "Vector2d list"
  m_twists :: "Vector3d list"
  m_reference_path_set :: bool
  m_problem_size :: int
  m_constraint_penalty_coefficient_handle :: "real option"
  m_kinematic_constraint_residuals :: "nat list"

subsection \<open>Failures and observable events\<close>

text \<open>
  Every way in which an operation of the source does not return normally:
  a failed \<^verbatim>\<open>ROS_ASSERT\<close> (modelled as enabled), the \<^verbatim>\<open>std::length_error\<close> of
  \<^verbatim>\<open>std::vector::reserve\<close>, the error text thrown by \<^verbatim>\<open>solve\<close>, and an index past the
  end of a \<^verbatim>\<open>std::vector\<close> (undefined behaviour in C++).
\<close>

datatype failure =
  AssertionFailed
  | LengthError
  | ReferencePathNotSet
  | IndexOutOfRange

text \<open>
  What \<^verbatim>\<open>solve\<close> does that is visible outside the optimizer state: the log lines and the
  invocations of the external solver, each with the scale the penalty handle holds then.
\<close>

datatype event =
  RosError string
  | EngineSolve real
  | RosInfoBriefReport
  | RosInfoFeasible int
  | RosWarnMaxIterations

section \<open>Construction and setters\<close>

definition Mpc :: "Options \<Rightarrow> mpc" where
  "Mpc options =
     \<lparr>m_options = options,
      m_rotations = [Matrix2d_Identity],
      m_positions = [Vector2d_Zero],
      m_reference_rotations = [],
      m_reference_positions = [],
      m_twists = [Vector3d_Zero],
      m_reference_path_set = False,
      m_problem_size = 0,
      m_constraint_penalty_coefficient_handle = None,
      m_kinematic_constraint_residuals = []\<rparr>"

text \<open>
  \<^verbatim>\<open>std::min<int>(reference_path.poses.size(), ...)\<close> converts the size to \<^verbatim>\<open>int\<close>:
  the value modulo \<open>2^32\<close>, read as a signed 32-bit number.
\<close>

definition int_of_size_t :: "nat \<Rightarrow> int" where
  "int_of_size_t n = signed_take_bit 31 (int n)"

text \<open>
  A sequence of steps that stops at the first failure: the body of a counting
  \<^verbatim>\<open>for\<close> loop run for each index in order.
\<close>

primrec for_each :: "('a \<Rightarrow> 's \<Rightarrow> failure + 's) \<Rightarrow> 'a list \<Rightarrow> 's \<Rightarrow> failure + 's" where
  "for_each f [] s = Inr s"
| "for_each f (i # is) s = (case f i s of Inl e \<Rightarrow> Inl e | Inr s' \<Rightarrow> for_each f is s')"

text \<open>
  The body of the loop of \<^verbatim>\<open>set_reference_path\<close>. The conversion
  \<^verbatim>\<open>SO2<double>::from_quaternion(tf2::fromMsg(...))\<close> is declared in headers that are not
  part of the sources at hand; it is the parameter \<open>from_quaternion\<close>.
\<close>

definition store_reference_pose ::
  "(Quaternion \<Rightarrow> Matrix2d) \<Rightarrow> PoseStamped list \<Rightarrow> nat \<Rightarrow> mpc \<Rightarrow> failure + mpc" where
  "store_reference_pose from_quaternion ps i s =
     (if i < length ps then
        Inr (s\<lparr>m_reference_positions := m_reference_positions s @
                 [(point_x (pose_position (pose (ps ! i))),
                   point_y (pose_position (pose (ps ! i))))],
               m_reference_rotations := m_reference_rotations s @
                 [from_quaternion (pose_orientation (pose (ps ! i)))]\<rparr>)
      else Inl IndexOutOfRange)"

text \<open>
  Every operation returns the failure, if any, together with the state the optimizer is
  left in. \<^verbatim>\<open>reserve\<close> of a negative \<^verbatim>\<open>int\<close>, converted to an unsigned size, exceeds
  \<^verbatim>\<open>max_size()\<close> and throws.
\<close>

definition set_reference_path ::
  "(Quaternion \<Rightarrow> Matrix2d) \<Rightarrow> Path \<Rightarrow> mpc \<Rightarrow> failure option \<times> mpc" where
  "set_reference_path from_quaternion reference_path s =
     (if \<not> length (poses reference_path) > 0 then (Some AssertionFailed, s)
      else
        let s1 = s\<lparr>m_problem_size :=
                     min (int_of_size_t (length (poses reference_path)))
                         (max_num_poses (m_options s))\<rparr>;
            s2 = s1\<lparr>m_reference_positions := [], m_reference_rotations := []\<rparr>
        in if m_problem_size s2 < 0 then (Some LengthError, s2)
           else
             (case for_each (store_reference_pose from_quaternion (poses reference_path))
                     [0..<nat (m_problem_size s2)] s2 of
                Inl e \<Rightarrow> (Some e, s2)
              | Inr s3 \<Rightarrow> (None, s3\<lparr>m_reference_path_set := True\<rparr>)))"

definition set_initial_pose :: "(Quaternion \<Rightarrow> Matrix2d) \<Rightarrow> PoseStamped \<Rightarrow> mpc \<Rightarrow> mpc" where
  "set_initial_pose from_quaternion initial_pose s =
     s\<lparr>m_positions := [(point_x (pose_position (pose initial_pose)),
                         point_y (pose_position (pose initial_pose)))],
       m_rotations := [from_quaternion (pose_orientation (pose initial_pose))]\<rparr>"

definition set_initial_twist :: "TwistStamped \<Rightarrow> mpc \<Rightarrow> mpc" where
  "set_initial_twist initial_twist s =
     s\<lparr>m_twists := [(vec_z (angular (twist initial_twist)),
                      vec_x (linear (twist initial_twist)),
                      vec_y (linear (twist initial_twist)))]\<rparr>"

section \<open>The optimization problem handed to the external solver\<close>

text \<open>
  A parameter block is identified by the address the source passes to the solver: the
  data of one element of one of the five buffers.
\<close>

datatype parameter_block =
  RotationBlock nat
  | PositionBlock nat
  | ReferenceRotationBlock nat
  | ReferencePositionBlock nat
  | TwistBlock nat

datatype local_parameterization =
  Rotation2DParameterization
  | SubsetParameterization nat "nat list"

datatype cost_function =
  ReferencePathResidual
  | VelocityChangeResidual
  | KinematicConstraintPenaltyResidual real

datatype loss_function =
  ReferenceLossFunction
  | VelocityLossFunction
  | ConstraintPenaltyCoefficientHandle

record residual_block =
  rb_cost :: cost_function
  rb_loss :: loss_function
  rb_parameters :: "parameter_block list"

record Problem =
  parameter_blocks :: "(parameter_block \<times> nat \<times> local_parameterization option) list"
  constant_blocks :: "parameter_block list"
  residual_blocks :: "residual_block list"

definition empty_Problem :: Problem where
  "empty_Problem = \<lparr>parameter_blocks = [], constant_blocks = [], residual_blocks = []\<rparr>"

text \<open>Adding a block that the problem already has changes nothing.\<close>

definition AddParameterBlock ::
  "parameter_block \<Rightarrow> nat \<Rightarrow> local_parameterization option \<Rightarrow> Problem \<Rightarrow> Problem" where
  "AddParameterBlock b n lp p =
     (if b \<in> set (map fst (parameter_blocks p)) then p
      else p\<lparr>parameter_blocks := parameter_blocks p @ [(b, n, lp)]\<rparr>)"

definition SetParameterBlockConstant :: "parameter_block \<Rightarrow> Problem \<Rightarrow> Problem" where
  "SetParameterBlockConstant b p = p\<lparr>constant_blocks := constant_blocks p @ [b]\<rparr>"

text \<open>The identity returned for a residual block is its position in the problem.\<close>

definition AddResidualBlock ::
  "cost_function \<Rightarrow> loss_function \<Rightarrow> parameter_block list \<Rightarrow> Problem \<Rightarrow> Problem \<times> nat" where
  "AddResidualBlock c l bs p =
     (p\<lparr>residual_blocks := residual_blocks p @
           [\<lparr>rb_cost = c, rb_loss = l, rb_parameters = bs\<rparr>]\<rparr>,
      length (residual_blocks p))"

section \<open>Initial guess and problem construction\<close>

text \<open>
  \<^verbatim>\<open>KinematicModel::propagate\<close> is declared in a header that is not part of the sources
  at hand; it is the parameter \<open>propagate\<close>. The loop of \<^verbatim>\<open>generate_initial_values\<close> runs
  for \<open>i = 1, ..., m_problem_size - 1\<close> and carries \<^verbatim>\<open>prev_pose\<close>.
\<close>

primrec generate_loop ::
  "(Pose2D \<Rightarrow> Vector3d \<Rightarrow> real \<Rightarrow> Pose2D) \<Rightarrow> Vector3d \<Rightarrow> real \<Rightarrow> nat list \<Rightarrow> Pose2D \<Rightarrow> mpc \<Rightarrow> mpc"
where
  "generate_loop propagate tw dt [] prev_pose s = s"
| "generate_loop propagate tw dt (i # is) prev_pose s =
     (let next_pose = propagate prev_pose tw dt
      in generate_loop propagate tw dt is next_pose
           (s\<lparr>m_positions := m_positions s @ [position next_pose],
              m_rotations := m_rotations s @ [rotation next_pose],
              m_twists := m_twists s @ [tw]\<rparr>))"

definition generate_initial_values ::
  "(Pose2D \<Rightarrow> Vector3d \<Rightarrow> real \<Rightarrow> Pose2D) \<Rightarrow> mpc \<Rightarrow> failure + mpc" where
  "generate_initial_values propagate s =
     (if m_twists s = [] \<or> m_rotations s = [] \<or> m_positions s = [] then Inl IndexOutOfRange
      else Inr (generate_loop propagate (m_twists s ! 0) (time_step (m_options s))
                  [1..<nat (m_problem_size s)]
                  \<lparr>rotation = m_rotations s ! 0, position = m_positions s ! 0\<rparr> s))"

text \<open>
  The body of the loop of \<^verbatim>\<open>build_optimization_problem\<close>, for an index \<open>i \<ge> 1\<close>:
  first the calls it makes on the problem, which end with the identity of the
  kinematic-constraint residual block, then the body itself, which takes the addresses of
  the buffer elements with index \<open>i\<close> (those with index \<open>i - 1\<close> lie before them) and
  records that identity.
\<close>

definition add_step :: "real \<Rightarrow> nat \<Rightarrow> Problem \<Rightarrow> Problem \<times> nat" where
  "add_step dt i p =
     (let p1 = AddParameterBlock (RotationBlock i) 4 (Some Rotation2DParameterization) p;
          p2 = AddParameterBlock (PositionBlock i) 2 None p1;
          p3 = AddParameterBlock (ReferenceRotationBlock i) 4
                 (Some Rotation2DParameterization) p2;
          p4 = AddParameterBlock (ReferencePositionBlock i) 2 None p3;
          p5 = AddParameterBlock (TwistBlock i) 3 (Some (SubsetParameterization 3 [2])) p4;
          p6 = SetParameterBlockConstant (ReferenceRotationBlock i) p5;
          p7 = SetParameterBlockConstant (ReferencePositionBlock i) p6;
          p8 = fst (AddResidualBlock ReferencePathResidual ReferenceLossFunction
                 [ReferenceRotationBlock i, ReferencePositionBlock i,
                  RotationBlock i, PositionBlock i] p7);
          p9 = fst (AddResidualBlock VelocityChangeResidual VelocityLossFunction
                 [TwistBlock i, TwistBlock (i - 1)] p8)
      in AddResidualBlock (KinematicConstraintPenaltyResidual dt)
           ConstraintPenaltyCoefficientHandle
           [RotationBlock i, PositionBlock i, RotationBlock (i - 1),
            PositionBlock (i - 1), TwistBlock (i - 1)] p9)"

definition build_step :: "nat \<Rightarrow> Problem \<times> mpc \<Rightarrow> failure + Problem \<times> mpc" where
  "build_step i ps =
     (let p = fst ps; s = snd ps in
      if i < length (m_rotations s) \<and> i < length (m_positions s) \<and>
         i < length (m_reference_rotations s) \<and> i < length (m_reference_positions s) \<and>
         i < length (m_twists s)
      then
        let r = add_step (time_step (m_options s)) i p
        in Inr (fst r,
                s\<lparr>m_kinematic_constraint_residuals :=
                    m_kinematic_constraint_residuals s @ [snd r]\<rparr>)
      else Inl IndexOutOfRange)"

definition build_optimization_problem :: "Problem \<Rightarrow> mpc \<Rightarrow> failure + Problem \<times> mpc" where
  "build_optimization_problem problem s =
     (if m_rotations s = [] \<or> m_positions s = [] \<or> m_twists s = [] then Inl IndexOutOfRange
      else
        let p1 = AddParameterBlock (RotationBlock 0) 4 (Some Rotation2DParameterization) problem;
            p2 = AddParameterBlock (PositionBlock 0) 2 None p1;
            p3 = AddParameterBlock (TwistBlock 0) 3 (Some (SubsetParameterization 3 [2])) p2;
            p4 = SetParameterBlockConstant (RotationBlock 0) p3;
            p5 = SetParameterBlockConstant (PositionBlock 0) p4;
            p6 = SetParameterBlockConstant (TwistBlock 0) p5
        in for_each build_step [1..<nat (m_problem_size s)]
             (p6, s\<lparr>m_kinematic_constraint_residuals := []\<rparr>))"

section \<open>The external solver\<close>

text \<open>
  The nonlinear least-squares engine is a collaborator, not part of the optimizer. Its
  contract is that a solve writes the parameter blocks of the problem that are not
  constant, and of such a block only the components that its parameterization does not
  hold fixed; everything else is left as it is. An engine is therefore any function that
  proposes a value for every element of the three horizon buffers; \<open>Solve\<close> writes the
  proposal where the problem allows it.
\<close>

type_synonym engine =
  "Problem \<Rightarrow> mpc \<Rightarrow> (nat \<Rightarrow> Matrix2d) \<times> (nat \<Rightarrow> Vector2d) \<times> (nat \<Rightarrow> Vector3d)"

definition is_variable :: "Problem \<Rightarrow> parameter_block \<Rightarrow> bool" where
  "is_variable p b \<longleftrightarrow>
     b \<in> set (map fst (parameter_blocks p)) \<and> b \<notin> set (constant_blocks p)"

definition holds_fixed :: "Problem \<Rightarrow> parameter_block \<Rightarrow> nat \<Rightarrow> bool" where
  "holds_fixed p b k \<longleftrightarrow>
     list_ex (\<lambda>e. fst e = b \<and>
                (case snd (snd e) of
                   Some (SubsetParameterization n ks) \<Rightarrow> k \<in> set ks
                 | _ \<Rightarrow> False))
             (parameter_blocks p)"

definition write_twist :: "Problem \<Rightarrow> nat \<Rightarrow> Vector3d \<Rightarrow> Vector3d \<Rightarrow> Vector3d" where
  "write_twist p i old new =
     (if is_variable p (TwistBlock i) then
        (if holds_fixed p (TwistBlock i) 0 then fst old else fst new,
         if holds_fixed p (TwistBlock i) 1 then fst (snd old) else fst (snd new),
         if holds_fixed p (TwistBlock i) 2 then snd (snd old) else snd (snd new))
      else old)"

definition Solve :: "engine \<Rightarrow> Problem \<Rightarrow> mpc \<Rightarrow> mpc" where
  "Solve eng p s =
     (let proposal = eng p s in
      s\<lparr>m_rotations :=
          map (\<lambda>i. if is_variable p (RotationBlock i) then fst proposal i
                   else m_rotations s ! i) [0..<length (m_rotations s)],
        m_positions :=
          map (\<lambda>i. if is_variable p (PositionBlock i) then fst (snd proposal) i
                   else m_positions s ! i) [0..<length (m_positions s)],
        m_twists :=
          map (\<lambda>i. write_twist p i (m_twists s ! i) (snd (snd proposal) i))
              [0..<length (m_twists s)]\<rparr>)"

text \<open>
  The value a parameter block has in the optimizer state, if the element exists.
\<close>

datatype block_value =
  MatrixValue Matrix2d
  | PointValue Vector2d
  | TangentValue Vector3d

definition value_of_block :: "mpc \<Rightarrow> parameter_block \<Rightarrow> block_value option" where
  "value_of_block s b =
     (case b of
        RotationBlock i \<Rightarrow>
          if i < length (m_rotations s) then Some (MatrixValue (m_rotations s ! i)) else None
      | PositionBlock i \<Rightarrow>
          if i < length (m_positions s) then Some (PointValue (m_positions s ! i)) else None
      | ReferenceRotationBlock i \<Rightarrow>
          if i < length (m_reference_rotations s)
          then Some (MatrixValue (m_reference_rotations s ! i)) else None
      | ReferencePositionBlock i \<Rightarrow>
          if i < length (m_reference_positions s)
          then Some (PointValue (m_reference_positions s ! i)) else None
      | TwistBlock i \<Rightarrow>
          if i < length (m_twists s) then Some (TangentValue (m_twists s ! i)) else None)"

text \<open>
  \<^verbatim>\<open>EvaluateResidualBlock(id, false, &cost, nullptr, nullptr)\<close>: the cost of one residual
  block at the current values of its parameter blocks, with no loss function applied.
  The residual functors are declared in a header that is not part of the sources at hand;
  what they compute is the parameter \<open>cost_of\<close>, which answers \<open>None\<close> where the
  evaluation does not succeed.
\<close>

type_synonym evaluator = "cost_function \<Rightarrow> block_value list \<Rightarrow> real option"

definition EvaluateResidualBlock :: "evaluator \<Rightarrow> Problem \<Rightarrow> mpc \<Rightarrow> nat \<Rightarrow> real option" where
  "EvaluateResidualBlock cost_of p s residual_id =
     (if residual_id < length (residual_blocks p) then
        let rb = residual_blocks p ! residual_id;
            vs = map (value_of_block s) (rb_parameters rb)
        in if None \<in> set vs then None else cost_of (rb_cost rb) (map the vs)
      else None)"

section \<open>Feasibility and the penalty iterations\<close>

primrec is_feasible_loop :: "evaluator \<Rightarrow> Problem \<Rightarrow> mpc \<Rightarrow> nat list \<Rightarrow> failure + bool" where
  "is_feasible_loop cost_of p s [] = Inr True"
| "is_feasible_loop cost_of p s (residual_id # ids) =
     (case EvaluateResidualBlock cost_of p s residual_id of
        None \<Rightarrow> Inl AssertionFailed
      | Some cost \<Rightarrow>
          if cost > max_constraint_cost (m_options s) then Inr False
          else is_feasible_loop cost_of p s ids)"

definition is_feasible :: "evaluator \<Rightarrow> Problem \<Rightarrow> mpc \<Rightarrow> failure + bool" where
  "is_feasible cost_of p s =
     is_feasible_loop cost_of p s (m_kinematic_constraint_residuals s)"

text \<open>
  The \<^verbatim>\<open>while\<close> loop of \<^verbatim>\<open>solve\<close>, from the values \<open>iteration\<close> and
  \<open>penalty_coefficient\<close> have at the loop head. It returns the failure, if any, the final
  \<open>iteration\<close> and \<open>penalty_coefficient\<close>, the state and the events so far.
\<close>

function penalty_iterations ::
  "engine \<Rightarrow> evaluator \<Rightarrow> Problem \<Rightarrow> int \<Rightarrow> real \<Rightarrow> mpc \<Rightarrow> event list
     \<Rightarrow> failure option \<times> int \<times> real \<times> mpc \<times> event list" where
  "penalty_iterations eng cost_of p iteration penalty_coefficient s tr =
     (if iteration < max_penalty_iterations (m_options s) then
        let iteration' = iteration + 1;
            s1 = s\<lparr>m_constraint_penalty_coefficient_handle := Some penalty_coefficient\<rparr>;
            s2 = Solve eng p s1;
            tr' = tr @ [EngineSolve penalty_coefficient, RosInfoBriefReport]
        in (case is_feasible cost_of p s2 of
              Inl e \<Rightarrow> (Some e, iteration', penalty_coefficient, s2, tr')
            | Inr True \<Rightarrow>
                (None, iteration', penalty_coefficient, s2, tr' @ [RosInfoFeasible iteration'])
            | Inr False \<Rightarrow>
                penalty_iterations eng cost_of p iteration'
                  (penalty_coefficient * penalty_increase_factor (m_options s)) s2 tr')
      else (None, iteration, penalty_coefficient, s, tr))"
  by pat_completeness auto
termination
  by (relation "measure (\<lambda>(eng, cost_of, p, iteration, c, s, tr).
         nat (max_penalty_iterations (m_options s) - iteration))")
     (auto simp: Solve_def Let_def)

declare penalty_iterations.simps [simp del]

definition error_text :: string where
  "error_text = ''Reference path must be set before calling Mpc::solve()!''"

definition solve ::
  "(Pose2D \<Rightarrow> Vector3d \<Rightarrow> real \<Rightarrow> Pose2D) \<Rightarrow> engine \<Rightarrow> evaluator \<Rightarrow> mpc
     \<Rightarrow> failure option \<times> mpc \<times> event list" where
  "solve propagate eng cost_of s =
     (if \<not> m_reference_path_set s then (Some ReferencePathNotSet, s, [RosError error_text])
      else
        (case generate_initial_values propagate s of
           Inl e \<Rightarrow> (Some e, s, [])
         | Inr s1 \<Rightarrow>
             (case build_optimization_problem empty_Problem s1 of
                Inl e \<Rightarrow> (Some e, s1, [])
              | Inr ps \<Rightarrow>
                  (case penalty_iterations eng cost_of (fst ps) 0 1 (snd ps) [] of
                     (Some e, iteration, c, s3, tr) \<Rightarrow> (Some e, s3, tr)
                   | (None, iteration, c, s3, tr) \<Rightarrow>
                       (None, s3,
                        if iteration \<ge> max_penalty_iterations (m_options s3)
                        then tr @ [RosWarnMaxIterations] else tr)))))"

section \<open>Reading out the horizon\<close>

text \<open>
  The conversion \<^verbatim>\<open>tf2::toMsg(SO2<double>::to_quaternion(...))\<close> is the parameter
  \<open>to_quaternion\<close>. A value-initialised \<^verbatim>\<open>PoseStamped\<close> has an empty header and zero
  coordinates.
\<close>

definition empty_Header :: Header where
  "empty_Header = \<lparr>stamp = 0, frame_id = []\<rparr>"

definition read_pose :: "(Matrix2d \<Rightarrow> Quaternion) \<Rightarrow> mpc \<Rightarrow> nat \<Rightarrow> Path \<Rightarrow> failure + Path" where
  "read_pose to_quaternion s i optimal_path =
     (if i < length (m_rotations s) \<and> i < length (m_positions s) then
        Inr (optimal_path\<lparr>poses := poses optimal_path @
               [\<lparr>pose_header = empty_Header,
                 pose = \<lparr>pose_position =
                           \<lparr>point_x = fst (m_positions s ! i),
                            point_y = snd (m_positions s ! i), point_z = 0\<rparr>,
                         pose_orientation = to_quaternion (m_rotations s ! i)\<rparr>\<rparr>]\<rparr>)
      else Inl IndexOutOfRange)"

definition get_optimal_path :: "(Matrix2d \<Rightarrow> Quaternion) \<Rightarrow> mpc \<Rightarrow> failure + Path" where
  "get_optimal_path to_quaternion s =
     for_each (read_pose to_quaternion s) [0..<nat (m_problem_size s)]
       \<lparr>path_header = \<lparr>stamp = 0, frame_id = ''map''\<rparr>, poses = []\<rparr>"

section \<open>Notions used to state the properties\<close>

definition reference_position :: "PoseStamped \<Rightarrow> Vector2d" where
  "reference_position ps =
     (point_x (pose_position (pose ps)), point_y (pose_position (pose ps)))"

text \<open>The pose the horizon holds at step \<open>i\<close>.\<close>

definition pose_at :: "mpc \<Rightarrow> nat \<Rightarrow> Pose2D" where
  "pose_at s i = \<lparr>rotation = m_rotations s ! i, position = m_positions s ! i\<rparr>"

text \<open>
  Modelled from the spec: the kinematic-consistency residual, whose functor
  (\<^verbatim>\<open>KinematicConstraintPenaltyResidual\<close> of \<^verbatim>\<open>residuals.h\<close>) and whose manifold difference
  (\<^verbatim>\<open>parameterization2d.h\<close>) are missing. The spec gives it as
  \<open>r = manifold_minus(pose_i, propagate(pose_{i-1}, twist_{i-1}, dt))\<close>, zero if and only
  if \<open>pose_i\<close> is exactly the propagation of \<open>pose_{i-1}\<close> under \<open>twist_{i-1}\<close>. The
  manifold difference is the parameter \<open>manifold_minus\<close>.
\<close>

definition kinematic_consistency_residual ::
  "(Pose2D \<Rightarrow> Pose2D \<Rightarrow> Vector3d) \<Rightarrow> (Pose2D \<Rightarrow> Vector3d \<Rightarrow> real \<Rightarrow> Pose2D) \<Rightarrow> real
     \<Rightarrow> Matrix2d \<Rightarrow> Vector2d \<Rightarrow> Matrix2d \<Rightarrow> Vector2d \<Rightarrow> Vector3d \<Rightarrow> Vector3d" where
  "kinematic_consistency_residual manifold_minus propagate dt
       rotation_i position_i rotation_prev position_prev twist_prev =
     manifold_minus \<lparr>rotation = rotation_i, position = position_i\<rparr>
       (propagate \<lparr>rotation = rotation_prev, position = position_prev\<rparr> twist_prev dt)"

text \<open>
  The three residual blocks the spec asks for at step \<open>i\<close>: reference tracking at \<open>i\<close>,
  velocity change against \<open>i - 1\<close> and kinematic consistency against \<open>i - 1\<close>.
\<close>

definition step_residuals :: "real \<Rightarrow> nat \<Rightarrow> residual_block list" where
  "step_residuals dt i =
     [\<lparr>rb_cost = ReferencePathResidual, rb_loss = ReferenceLossFunction,
       rb_parameters = [ReferenceRotationBlock i, ReferencePositionBlock i,
                        RotationBlock i, PositionBlock i]\<rparr>,
      \<lparr>rb_cost = VelocityChangeResidual, rb_loss = VelocityLossFunction,
       rb_parameters = [TwistBlock i, TwistBlock (i - 1)]\<rparr>,
      \<lparr>rb_cost = KinematicConstraintPenaltyResidual dt,
       rb_loss = ConstraintPenaltyCoefficientHandle,
       rb_parameters = [RotationBlock i, PositionBlock i, RotationBlock (i - 1),
                        PositionBlock (i - 1), TwistBlock (i - 1)]\<rparr>]"

text \<open>The stamped pose \<^verbatim>\<open>get_optimal_path\<close> makes of step \<open>i\<close> of the horizon.\<close>

definition stamped_pose :: "(Matrix2d \<Rightarrow> Quaternion) \<Rightarrow> mpc \<Rightarrow> nat \<Rightarrow> PoseStamped" where
  "stamped_pose to_quaternion s i =
     \<lparr>pose_header = empty_Header,
      pose = \<lparr>pose_position =
                \<lparr>point_x = fst (m_positions s ! i),
                 point_y = snd (m_positions s ! i), point_z = 0\<rparr>,
              pose_orientation = to_quaternion (m_rotations s ! i)\<rparr>\<rparr>"

text \<open>All five buffers hold at least \<open>n\<close> elements.\<close>

definition fits :: "mpc \<Rightarrow> nat \<Rightarrow> bool" where
  "fits s n \<longleftrightarrow>
     n \<le> length (m_rotations s) \<and> n \<le> length (m_positions s) \<and>
     n \<le> length (m_reference_rotations s) \<and> n \<le> length (m_reference_positions s) \<and>
     n \<le> length (m_twists s)"

text \<open>Every twist block of the problem has the parameterization that fixes component 2.\<close>

definition twists_diffdrive :: "Problem \<Rightarrow> bool" where
  "twists_diffdrive p \<longleftrightarrow>
     (\<forall>e \<in> set (parameter_blocks p).
        (\<exists>i. fst e = TwistBlock i) \<longrightarrow> snd (snd e) = Some (SubsetParameterization 3 [2]))"

text \<open>The calls of the loop body on the problem, for a list of indices.\<close>

primrec add_steps :: "real \<Rightarrow> nat list \<Rightarrow> Problem \<Rightarrow> Problem" where
  "add_steps dt [] p = p"
| "add_steps dt (i # is) p = add_steps dt is (fst (add_step dt i p))"

text \<open>The problem as it is before the loop: the blocks of step 0, all constant.\<close>

definition step0_problem :: Problem where
  "step0_problem =
     \<lparr>parameter_blocks =
        [(RotationBlock 0, 4, Some Rotation2DParameterization),
         (PositionBlock 0, 2, None),
         (TwistBlock 0, 3, Some (SubsetParameterization 3 [2]))],
      constant_blocks = [RotationBlock 0, PositionBlock 0, TwistBlock 0],
      residual_blocks = []\<rparr>"

text \<open>
  What holds of the buffers in every state the public operations can reach: the horizon
  buffers are never empty and the reference buffers have the length of the problem size.
\<close>

definition mpc_invariant :: "mpc \<Rightarrow> bool" where
  "mpc_invariant s \<longleftrightarrow>
     m_rotations s \<noteq> [] \<and> m_positions s \<noteq> [] \<and> m_twists s \<noteq> [] \<and>
     length (m_reference_rotations s) = nat (m_problem_size s) \<and>
     length (m_reference_positions s) = nat (m_problem_size s)"

text \<open>
  The values \<^verbatim>\<open>solve\<close> passes through: the state after \<^verbatim>\<open>generate_initial_values\<close>, the
  problem and the state after \<^verbatim>\<open>build_optimization_problem\<close>, and the state after \<open>j\<close>
  penalty iterations none of which was feasible.
\<close>

definition initial_guess :: "(Pose2D \<Rightarrow> Vector3d \<Rightarrow> real \<Rightarrow> Pose2D) \<Rightarrow> mpc \<Rightarrow> mpc" where
  "initial_guess propagate s = projr (generate_initial_values propagate s)"

definition built_problem :: "(Pose2D \<Rightarrow> Vector3d \<Rightarrow> real \<Rightarrow> Pose2D) \<Rightarrow> mpc \<Rightarrow> Problem" where
  "built_problem propagate s =
     fst (projr (build_optimization_problem empty_Problem (initial_guess propagate s)))"

definition built_state :: "(Pose2D \<Rightarrow> Vector3d \<Rightarrow> real \<Rightarrow> Pose2D) \<Rightarrow> mpc \<Rightarrow> mpc" where
  "built_state propagate s =
     snd (projr (build_optimization_problem empty_Problem (initial_guess propagate s)))"

primrec penalty_state :: "engine \<Rightarrow> Problem \<Rightarrow> mpc \<Rightarrow> nat \<Rightarrow> mpc" where
  "penalty_state eng p s 0 = s"
| "penalty_state eng p s (Suc j) =
     Solve eng p ((penalty_state eng p s j)
       \<lparr>m_constraint_penalty_coefficient_handle :=
          Some (penalty_increase_factor (m_options s) ^ j)\<rparr>)"

text \<open>The events of the first \<open>n\<close> penalty iterations, and the scales among events.\<close>

definition penalty_log :: "real \<Rightarrow> nat \<Rightarrow> event list" where
  "penalty_log f n = concat (map (\<lambda>j. [EngineSolve (f ^ j), RosInfoBriefReport]) [0..<n])"

fun engine_coefficients :: "event list \<Rightarrow> real list" where
  "engine_coefficients [] = []"
| "engine_coefficients (EngineSolve c # es) = c # engine_coefficients es"
| "engine_coefficients (e # es) = engine_coefficients es"

text \<open>
  Feasibility in the words of the spec: every recorded kinematic-constraint residual block
  has a cost of at most \<^verbatim>\<open>max_constraint_cost\<close>. It is stated on the costs alone, to be
  compared with what \<^verbatim>\<open>is_feasible\<close> of the source decides. \<open>costs_evaluated\<close> says that
  the evaluation of every recorded block succeeds, which the source asserts.
\<close>

definition feasible_by_costs :: "evaluator \<Rightarrow> Problem \<Rightarrow> mpc \<Rightarrow> bool" where
  "feasible_by_costs cost_of p s \<longleftrightarrow>
     (\<forall>residual_id \<in> set (m_kinematic_constraint_residuals s).
        case EvaluateResidualBlock cost_of p s residual_id of
          None \<Rightarrow> False
        | Some cost \<Rightarrow> cost \<le> max_constraint_cost (m_options s))"

definition costs_evaluated :: "evaluator \<Rightarrow> Problem \<Rightarrow> mpc \<Rightarrow> bool" where
  "costs_evaluated cost_of p s \<longleftrightarrow>
     (\<forall>residual_id \<in> set (m_kinematic_constraint_residuals s).
        EvaluateResidualBlock cost_of p s residual_id \<noteq> None)"

section \<open>Example inputs\<close>

definition example_pose :: "real \<Rightarrow> real \<Rightarrow> PoseStamped" where
  "example_pose a b =
     \<lparr>pose_header = empty_Header,
      pose = \<lparr>pose_position = \<lparr>point_x = a, point_y = b, point_z = 0\<rparr>,
              pose_orientation = \<lparr>quat_x = 0, quat_y = 0, quat_z = 0, quat_w = 1\<rparr>\<rparr>\<rparr>"

definition example_path :: "PoseStamped list \<Rightarrow> Path" where
  "example_path ps = \<lparr>path_header = \<lparr>stamp = 0, frame_id = ''odom''\<rparr>, poses = ps\<rparr>"

definition example_from_quaternion :: "Quaternion \<Rightarrow> Matrix2d" where
  "example_from_quaternion q =
     (1 - 2 * quat_z q * quat_z q, - 2 * quat_w q * quat_z q,
      2 * quat_w q * quat_z q, 1 - 2 * quat_z q * quat_z q)"

definition example_propagate :: "Pose2D \<Rightarrow> Vector3d \<Rightarrow> real \<Rightarrow> Pose2D" where
  "example_propagate q tw dt =
     q\<lparr>position := (fst (position q) + dt * forward_velocity tw,
                     snd (position q) + dt * lateral_velocity tw)\<rparr>"

definition example_manifold_minus :: "Pose2D \<Rightarrow> Pose2D \<Rightarrow> Vector3d" where
  "example_manifold_minus a b =
     (fst (snd (snd (rotation a))) - fst (snd (snd (rotation b))),
      fst (position a) - fst (position b), snd (position a) - snd (position b))"

text \<open>
  An engine that proposes, for every step, the identity rotation, a position whose first
  coordinate is the scale of the penalty handle, and a twist with lateral velocity 7.
\<close>

definition example_engine :: engine where
  "example_engine p s =
     (\<lambda>i. Matrix2d_Identity,
      \<lambda>i. (case m_constraint_penalty_coefficient_handle s of None \<Rightarrow> 0 | Some c \<Rightarrow> c, 0),
      \<lambda>i. (0, 1, 7))"

text \<open>An evaluator under which a step is within tolerance once its position reaches 5.\<close>

definition example_evaluator :: evaluator where
  "example_evaluator cf vs =
     (case vs of
        [MatrixValue r, PointValue x, MatrixValue r', PointValue x', TangentValue tw] \<Rightarrow>
          Some (if 5 \<le> fst x then 0 else 1)
      | _ \<Rightarrow> None)"

text \<open>A fresh optimizer that has been given a reference path with the poses \<open>ps\<close>.\<close>

definition example_state :: "Options \<Rightarrow> PoseStamped list \<Rightarrow> mpc" where
  "example_state options ps =
     snd (set_reference_path example_from_quaternion (example_path ps) (Mpc options))"

definition example_twist :: TwistStamped where
  "example_twist =
     \<lparr>twist_header = \<lparr>stamp = 0, frame_id = ''base_link''\<rparr>,
      twist = \<lparr>linear = \<lparr>vec_x = 1, vec_y = 1 / 2, vec_z = 0\<rparr>,
               angular = \<lparr>vec_x = 0, vec_y = 0, vec_z = 1 / 10\<rparr>\<rparr>\<rparr>"

text \<open>Evaluators under which every residual block costs 0, and 1.\<close>

definition example_evaluator_zero :: evaluator where
  "example_evaluator_zero cf vs = Some 0"

definition example_evaluator_one :: evaluator where
  "example_evaluator_one cf vs = Some 1"

definition example_to_quaternion :: "Matrix2d \<Rightarrow> Quaternion" where
  "example_to_quaternion r =
     \<lparr>quat_x = 0, quat_y = 0, quat_z = fst (snd (snd r)) / 2, quat_w = 1\<rparr>"

definition example_poses :: "PoseStamped list" where
  "example_poses = [example_pose 0 0, example_pose 1 0]"

definition example_options :: "int \<Rightarrow> real \<Rightarrow> Options" where
  "example_options m f =
     default_Options\<lparr>max_penalty_iterations := m, penalty_increase_factor := f\<rparr>"

text \<open>An optimizer that already holds the reference data of an earlier path.\<close>

definition example_used_state :: mpc where
  "example_used_state =
     (Mpc default_Options)\<lparr>m_reference_rotations := [Matrix2d_Identity],
       m_reference_positions := [(9, 9)], m_reference_path_set := True, m_problem_size := 1\<rparr>"

section \<open>Setting the reference path\<close>

lemma for_each_append:
  "for_each f (xs @ ys) s =
     (case for_each f xs s of Inl e \<Rightarrow> Inl e | Inr s' \<Rightarrow> for_each f ys s')"
  by (induction xs arbitrary: s) (auto split: sum.splits)

lemma store_reference_poses:
  "n \<le> length ps \<Longrightarrow>
   for_each (store_reference_pose fq ps) [0..<n] s =
     Inr (s\<lparr>m_reference_positions := m_reference_positions s @ map reference_position (take n ps),
            m_reference_rotations := m_reference_rotations s @
              map (\<lambda>q. fq (pose_orientation (pose q))) (take n ps)\<rparr>)"
proof (induction n)
  case 0
  then show ?case by simp
next
  case (Suc n)
  then have "n < length ps" by simp
  with Suc show ?case
    by (simp add: for_each_append store_reference_pose_def take_Suc_conv_app_nth
        reference_position_def)
qed

lemma int_of_size_t_le: "int_of_size_t n \<le> int n"
  by (simp add: int_of_size_t_def signed_take_bit_int_less_eq_self_iff)

lemma int_of_size_t_small: "n < 2 ^ 31 \<Longrightarrow> int_of_size_t n = int n"
  unfolding int_of_size_t_def
  by (rule signed_take_bit_int_eq_self) (simp_all add: order_less_le_trans flip: of_nat_power)

lemma set_reference_path_nonempty:
  assumes "poses reference_path \<noteq> []"
    and N_def: "N = min (int_of_size_t (length (poses reference_path)))
                      (max_num_poses (m_options s))"
  shows "set_reference_path fq reference_path s =
     (if N < 0
      then (Some LengthError,
            s\<lparr>m_problem_size := N, m_reference_positions := [], m_reference_rotations := []\<rparr>)
      else (None,
            s\<lparr>m_problem_size := N,
              m_reference_positions :=
                map reference_position (take (nat N) (poses reference_path)),
              m_reference_rotations :=
                map (\<lambda>q. fq (pose_orientation (pose q))) (take (nat N) (poses reference_path)),
              m_reference_path_set := True\<rparr>))"
proof -
  have bound: "nat N \<le> length (poses reference_path)"
    unfolding N_def using int_of_size_t_le [of "length (poses reference_path)"] by linarith
  show ?thesis
    using assms(1)
    by (simp add: set_reference_path_def Let_def store_reference_poses [OF bound] flip: N_def)
qed

text \<open>
  Claim C4. \<^verbatim>\<open>set_reference_path\<close> fails on its assertion for an empty reference path
  and leaves the optimizer as it was. For a non-empty path of length \<open>L\<close> it sets the
  problem size to the minimum of \<open>L\<close> (as the \<^verbatim>\<open>int\<close> it is converted to, which is \<open>L\<close>
  itself below \<open>2^31\<close>) and \<^verbatim>\<open>max_num_poses\<close>, and the reference buffers hold exactly the
  first problem-size poses of the path, whatever they held before. The call returns
  normally and marks the reference path as set unless the problem size is negative, in
  which case reserving the buffers throws.
\<close>

theorem set_reference_path_spec:
  "(poses reference_path = [] \<longrightarrow>
      set_reference_path fq reference_path s = (Some AssertionFailed, s)) \<and>
   (poses reference_path \<noteq> [] \<longrightarrow>
      m_problem_size (snd (set_reference_path fq reference_path s)) =
        min (int_of_size_t (length (poses reference_path))) (max_num_poses (m_options s)) \<and>
      (length (poses reference_path) < 2 ^ 31 \<longrightarrow>
         m_problem_size (snd (set_reference_path fq reference_path s)) =
           min (int (length (poses reference_path))) (max_num_poses (m_options s))) \<and>
      m_reference_positions (snd (set_reference_path fq reference_path s)) =
        map reference_position
          (take (nat (m_problem_size (snd (set_reference_path fq reference_path s))))
             (poses reference_path)) \<and>
      m_reference_rotations (snd (set_reference_path fq reference_path s)) =
        map (\<lambda>q. fq (pose_orientation (pose q)))
          (take (nat (m_problem_size (snd (set_reference_path fq reference_path s))))
             (poses reference_path)) \<and>
      (0 \<le> m_problem_size (snd (set_reference_path fq reference_path s)) \<longrightarrow>
         fst (set_reference_path fq reference_path s) = None \<and>
         m_reference_path_set (snd (set_reference_path fq reference_path s))) \<and>
      (m_problem_size (snd (set_reference_path fq reference_path s)) < 0 \<longrightarrow>
         fst (set_reference_path fq reference_path s) = Some LengthError))"
proof (cases "poses reference_path = []")
  case True
  then show ?thesis by (simp add: set_reference_path_def)
next
  case False
  show ?thesis
    using False int_of_size_t_small [of "length (poses reference_path)"]
    by (auto simp: set_reference_path_nonempty [OF False refl])
qed

theorem set_reference_path_spec_witness:
  "set_reference_path example_from_quaternion (example_path []) example_used_state =
     (Some AssertionFailed, example_used_state) \<and>
   poses (example_path [example_pose 1 2, example_pose 3 4]) \<noteq> [] \<and>
   m_problem_size (snd (set_reference_path example_from_quaternion
       (example_path [example_pose 1 2, example_pose 3 4]) example_used_state)) = 2 \<and>
   m_reference_positions (snd (set_reference_path example_from_quaternion
       (example_path [example_pose 1 2, example_pose 3 4]) example_used_state)) =
     [(1, 2), (3, 4)] \<and>
   fst (set_reference_path example_from_quaternion
       (example_path [example_pose 1 2, example_pose 3 4]) example_used_state) = None"
  using set_reference_path_spec [of "example_path []" example_from_quaternion example_used_state]
    set_reference_path_spec [of "example_path [example_pose 1 2, example_pose 3 4]"
      example_from_quaternion example_used_state]
  by (simp add: example_path_def example_used_state_def Mpc_def default_Options_def
      int_of_size_t_def reference_position_def example_pose_def)

section \<open>Solving without a reference path\<close>

text \<open>
  Claim C5. When no reference path has been set, \<^verbatim>\<open>solve\<close> logs the error text, throws
  it, and leaves every member of the optimizer as it was.
\<close>

theorem solve_without_reference_path:
  "\<not> m_reference_path_set s \<Longrightarrow>
   solve propagate eng cost_of s = (Some ReferencePathNotSet, s, [RosError error_text])"
  by (simp add: solve_def)

section \<open>The initial guess\<close>

lemma generate_loop_result:
  "generate_loop propagate tw dt is q s =
     s\<lparr>m_positions := m_positions s @
          map (\<lambda>k. position (((\<lambda>q. propagate q tw dt) ^^ Suc k) q)) [0..<length is],
       m_rotations := m_rotations s @
          map (\<lambda>k. rotation (((\<lambda>q. propagate q tw dt) ^^ Suc k) q)) [0..<length is],
       m_twists := m_twists s @ replicate (length is) tw\<rparr>"
proof (induction "is" arbitrary: q s)
  case Nil
  then show ?case by simp
next
  case (Cons i "is")
  have swap: "((\<lambda>q. propagate q tw dt) ^^ k) (propagate x tw dt) =
      propagate (((\<lambda>q. propagate q tw dt) ^^ k) x) tw dt" for k x
    using funpow_swap1 [of "\<lambda>q. propagate q tw dt" k x] by simp
  show ?case
    by (simp add: Cons.IH Let_def map_upt_Suc swap del: upt_Suc)
qed

lemma generate_initial_values_single:
  assumes "m_rotations s = [r0]" "m_positions s = [x0]" "m_twists s = [tw0]"
  shows "generate_initial_values propagate s =
     Inr (s\<lparr>m_positions := map (\<lambda>k. position (((\<lambda>q. propagate q tw0 (time_step (m_options s))) ^^ k)
                 \<lparr>rotation = r0, position = x0\<rparr>)) [0..<Suc (nat (m_problem_size s) - 1)],
            m_rotations := map (\<lambda>k. rotation (((\<lambda>q. propagate q tw0 (time_step (m_options s))) ^^ k)
                 \<lparr>rotation = r0, position = x0\<rparr>)) [0..<Suc (nat (m_problem_size s) - 1)],
            m_twists := replicate (Suc (nat (m_problem_size s) - 1)) tw0\<rparr>)"
  using assms
  by (simp add: generate_initial_values_def generate_loop_result map_upt_Suc
      del: upt_Suc funpow.simps replicate.simps) (simp add: replicate_app_Cons_same)

text \<open>
  Claim C3. From a horizon that holds just the initial pose and the initial twist, and
  for every problem size \<open>N \<ge> 1\<close>, \<^verbatim>\<open>generate_initial_values\<close> returns a horizon of \<open>N\<close>
  steps in which every twist is the initial twist, the pose of step \<open>i\<close> is the initial
  pose propagated \<open>i\<close> times, so each pose from step 1 on is the propagation of its
  predecessor under the initial twist over the time step, and every
  kinematic-consistency residual is zero.
\<close>

theorem generate_initial_values_consistent:
  assumes "m_rotations s = [r0]" and "m_positions s = [x0]" and "m_twists s = [tw0]"
    and "1 \<le> m_problem_size s"
    and "\<forall>q. manifold_minus q q = Vector3d_Zero"
  shows "\<exists>s'. generate_initial_values propagate s = Inr s' \<and>
    length (m_rotations s') = nat (m_problem_size s) \<and>
    length (m_positions s') = nat (m_problem_size s) \<and>
    length (m_twists s') = nat (m_problem_size s) \<and>
    (\<forall>i < nat (m_problem_size s). m_twists s' ! i = tw0) \<and>
    (\<forall>i < nat (m_problem_size s).
       pose_at s' i =
         ((\<lambda>q. propagate q tw0 (time_step (m_options s))) ^^ i)
           \<lparr>rotation = r0, position = x0\<rparr>) \<and>
    (\<forall>i. 1 \<le> i \<and> i < nat (m_problem_size s) \<longrightarrow>
       pose_at s' i = propagate (pose_at s' (i - 1)) tw0 (time_step (m_options s))) \<and>
    (\<forall>i. 1 \<le> i \<and> i < nat (m_problem_size s) \<longrightarrow>
       kinematic_consistency_residual manifold_minus propagate (time_step (m_options s))
         (m_rotations s' ! i) (m_positions s' ! i)
         (m_rotations s' ! (i - 1)) (m_positions s' ! (i - 1)) (m_twists s' ! (i - 1)) =
       Vector3d_Zero)"
proof -
  let ?n = "nat (m_problem_size s)"
  let ?step = "\<lambda>q. propagate q tw0 (time_step (m_options s))"
  let ?q0 = "\<lparr>rotation = r0, position = x0\<rparr>"
  let ?s' = "s\<lparr>m_positions := map (\<lambda>k. position ((?step ^^ k) ?q0)) [0..<?n],
             m_rotations := map (\<lambda>k. rotation ((?step ^^ k) ?q0)) [0..<?n],
             m_twists := replicate ?n tw0\<rparr>"
  have n: "Suc (?n - 1) = ?n"
    using assms(4) by simp
  have gen: "generate_initial_values propagate s = Inr ?s'"
    using generate_initial_values_single [OF assms(1-3), of propagate] by (simp only: n)
  have pose: "pose_at ?s' i = (?step ^^ i) ?q0" if "i < ?n" for i
    using that by (simp add: pose_at_def)
  have succ: "pose_at ?s' i = propagate (pose_at ?s' (i - 1)) tw0 (time_step (m_options s))"
    if "1 \<le> i" "i < ?n" for i
  proof -
    from that(1) obtain j where j: "i = Suc j"
      by (cases i) auto
    with that(2) have "j < ?n" by simp
    with that(2) show ?thesis
      unfolding j by (simp add: pose)
  qed
  have zero: "kinematic_consistency_residual manifold_minus propagate (time_step (m_options s))
         (m_rotations ?s' ! i) (m_positions ?s' ! i)
         (m_rotations ?s' ! (i - 1)) (m_positions ?s' ! (i - 1)) (m_twists ?s' ! (i - 1)) =
       Vector3d_Zero" if "1 \<le> i" "i < ?n" for i
  proof -
    have "i - 1 < ?n" using that by simp
    then have tw: "m_twists ?s' ! (i - 1) = tw0" by simp
    have "\<lparr>rotation = m_rotations ?s' ! i, position = m_positions ?s' ! i\<rparr> =
        propagate \<lparr>rotation = m_rotations ?s' ! (i - 1), position = m_positions ?s' ! (i - 1)\<rparr>
          tw0 (time_step (m_options s))"
      using succ [OF that] by (simp only: pose_at_def)
    then show ?thesis
      using assms(5) by (simp only: kinematic_consistency_residual_def tw)
  qed
  have "length (m_rotations ?s') = ?n" "length (m_positions ?s') = ?n"
    "length (m_twists ?s') = ?n" "\<forall>i < ?n. m_twists ?s' ! i = tw0"
    by simp_all
  with gen pose succ zero show ?thesis
    by blast
qed

section \<open>The problem that is built\<close>

lemmas problem_calls = AddResidualBlock_def AddParameterBlock_def SetParameterBlockConstant_def

lemma residual_blocks_add_step:
  "residual_blocks (fst (add_step dt i p)) = residual_blocks p @ step_residuals dt i"
  by (simp add: add_step_def Let_def problem_calls step_residuals_def)

lemma snd_add_step: "snd (add_step dt i p) = length (residual_blocks p) + 2"
  by (simp add: add_step_def Let_def problem_calls)

lemma constant_blocks_add_step:
  "constant_blocks (fst (add_step dt i p)) =
     constant_blocks p @ [ReferenceRotationBlock i, ReferencePositionBlock i]"
  by (simp add: add_step_def Let_def problem_calls)

lemma twists_diffdrive_AddParameterBlock:
  "twists_diffdrive p \<Longrightarrow> (\<forall>i. b = TwistBlock i \<longrightarrow> lp = Some (SubsetParameterization 3 [2])) \<Longrightarrow>
   twists_diffdrive (AddParameterBlock b n lp p)"
  by (auto simp: twists_diffdrive_def AddParameterBlock_def)

lemma twists_diffdrive_cong:
  "parameter_blocks p' = parameter_blocks p \<Longrightarrow> twists_diffdrive p' = twists_diffdrive p"
  by (simp add: twists_diffdrive_def)

lemma twists_diffdrive_add_step:
  assumes "twists_diffdrive p"
  shows "twists_diffdrive (fst (add_step dt i p))"
proof -
  let ?p5 = "AddParameterBlock (TwistBlock i) 3 (Some (SubsetParameterization 3 [2]))
     (AddParameterBlock (ReferencePositionBlock i) 2 None
       (AddParameterBlock (ReferenceRotationBlock i) 4 (Some Rotation2DParameterization)
         (AddParameterBlock (PositionBlock i) 2 None
           (AddParameterBlock (RotationBlock i) 4 (Some Rotation2DParameterization) p))))"
  have "parameter_blocks (fst (add_step dt i p)) = parameter_blocks ?p5"
    by (simp add: add_step_def Let_def AddResidualBlock_def SetParameterBlockConstant_def)
  then have "twists_diffdrive (fst (add_step dt i p)) = twists_diffdrive ?p5"
    by (rule twists_diffdrive_cong)
  moreover have "twists_diffdrive ?p5"
    using assms by (simp add: twists_diffdrive_AddParameterBlock)
  ultimately show ?thesis
    by simp
qed

lemma add_steps_append: "add_steps dt (xs @ ys) p = add_steps dt ys (add_steps dt xs p)"
  by (induction xs arbitrary: p) auto

lemma residual_blocks_add_steps:
  "residual_blocks (add_steps dt is p) = residual_blocks p @ concat (map (step_residuals dt) is)"
  by (induction "is" arbitrary: p) (auto simp: residual_blocks_add_step)

lemma constant_blocks_add_steps:
  "b \<in> set (constant_blocks p) \<Longrightarrow> b \<in> set (constant_blocks (add_steps dt is p))"
  by (induction "is" arbitrary: p) (simp_all add: constant_blocks_add_step)

lemma length_step_residuals: "length (concat (map (step_residuals dt) is)) = 3 * length is"
  by (induction "is") (auto simp: step_residuals_def)

lemma build_step_in_range:
  "fits s (Suc i) \<Longrightarrow>
   build_step i (p, s) =
     Inr (fst (add_step (time_step (m_options s)) i p),
          s\<lparr>m_kinematic_constraint_residuals :=
              m_kinematic_constraint_residuals s @ [length (residual_blocks p) + 2]\<rparr>)"
  by (simp add: build_step_def fits_def Let_def snd_add_step)

lemma build_steps:
  "fits s n \<Longrightarrow>
   for_each build_step [Suc 0..<n] (p, s) =
     Inr (add_steps (time_step (m_options s)) [Suc 0..<n] p,
          s\<lparr>m_kinematic_constraint_residuals :=
              m_kinematic_constraint_residuals s @
              map (\<lambda>i. length (residual_blocks p) + 3 * (i - 1) + 2) [Suc 0..<n]\<rparr>)"
proof (induction n)
  case 0
  then show ?case by simp
next
  case (Suc n)
  show ?case
  proof (cases "n = 0")
    case True
    then show ?thesis by simp
  next
    case False
    then have upt: "[Suc 0..<Suc n] = [Suc 0..<n] @ [n]"
      by simp
    from Suc.prems have "fits s n"
      by (simp add: fits_def)
    note IH = Suc.IH [OF this]
    have fits': "fits (s\<lparr>m_kinematic_constraint_residuals := ks\<rparr>) (Suc n)" for ks
      using Suc.prems by (simp add: fits_def)
    have len: "length (residual_blocks (add_steps (time_step (m_options s)) [Suc 0..<n] p)) =
        length (residual_blocks p) + 3 * (n - 1)"
      by (simp add: residual_blocks_add_steps length_step_residuals)
    show ?thesis
      unfolding upt for_each_append IH
      by (simp add: build_step_in_range [OF fits'] add_steps_append len del: upt_Suc)
  qed
qed

lemma build_optimization_problem_result:
  assumes "m_rotations s \<noteq> []" and "m_positions s \<noteq> []" and "m_twists s \<noteq> []"
    and "fits s (nat (m_problem_size s))"
  shows "build_optimization_problem empty_Problem s =
     Inr (add_steps (time_step (m_options s)) [Suc 0..<nat (m_problem_size s)] step0_problem,
          s\<lparr>m_kinematic_constraint_residuals :=
              map (\<lambda>i. 3 * (i - 1) + 2) [Suc 0..<nat (m_problem_size s)]\<rparr>)"
proof -
  have p0: "SetParameterBlockConstant (TwistBlock 0)
      (SetParameterBlockConstant (PositionBlock 0)
        (SetParameterBlockConstant (RotationBlock 0)
          (AddParameterBlock (TwistBlock 0) 3 (Some (SubsetParameterization 3 [2]))
            (AddParameterBlock (PositionBlock 0) 2 None
              (AddParameterBlock (RotationBlock 0) 4 (Some Rotation2DParameterization)
                 empty_Problem))))) = step0_problem"
    by (simp add: problem_calls empty_Problem_def step0_problem_def)
  have fits': "fits (s\<lparr>m_kinematic_constraint_residuals := []\<rparr>) (nat (m_problem_size s))"
    using assms(4) by (simp add: fits_def)
  show ?thesis
    using assms(1-3) build_steps [OF fits', of step0_problem]
    by (simp add: build_optimization_problem_def Let_def p0) (simp add: step0_problem_def)
qed

lemma generate_initial_values_result:
  assumes "m_rotations s \<noteq> []" and "m_positions s \<noteq> []" and "m_twists s \<noteq> []"
  shows "generate_initial_values propagate s = Inr (initial_guess propagate s)"
  using assms by (simp add: initial_guess_def generate_initial_values_def)

lemma initial_guess_fields:
  assumes "m_rotations s \<noteq> []" and "m_positions s \<noteq> []" and "m_twists s \<noteq> []"
  shows "length (m_rotations (initial_guess propagate s)) =
           length (m_rotations s) + (nat (m_problem_size s) - 1)"
    and "length (m_positions (initial_guess propagate s)) =
           length (m_positions s) + (nat (m_problem_size s) - 1)"
    and "length (m_twists (initial_guess propagate s)) =
           length (m_twists s) + (nat (m_problem_size s) - 1)"
    and "m_twists (initial_guess propagate s) =
           m_twists s @ replicate (nat (m_problem_size s) - 1) (m_twists s ! 0)"
    and "m_reference_rotations (initial_guess propagate s) = m_reference_rotations s"
    and "m_reference_positions (initial_guess propagate s) = m_reference_positions s"
    and "m_problem_size (initial_guess propagate s) = m_problem_size s"
    and "m_options (initial_guess propagate s) = m_options s"
    and "m_reference_path_set (initial_guess propagate s) = m_reference_path_set s"
  using assms
  by (simp_all add: initial_guess_def generate_initial_values_def generate_loop_result)

lemma fits_initial_guess:
  assumes "mpc_invariant s"
  shows "fits (initial_guess propagate s) (nat (m_problem_size (initial_guess propagate s)))"
proof -
  from assms have ne: "m_rotations s \<noteq> []" "m_positions s \<noteq> []" "m_twists s \<noteq> []"
    by (simp_all add: mpc_invariant_def)
  then have "1 \<le> length (m_rotations s)" "1 \<le> length (m_positions s)"
    "1 \<le> length (m_twists s)"
    by (simp_all add: Suc_le_eq)
  with assms show ?thesis
    by (simp add: fits_def initial_guess_fields [OF ne] mpc_invariant_def) linarith
qed

lemma build_after_initial_guess:
  assumes "mpc_invariant s"
  shows "build_optimization_problem empty_Problem (initial_guess propagate s) =
           Inr (built_problem propagate s, built_state propagate s)"
    and "built_problem propagate s =
           add_steps (time_step (m_options s)) [Suc 0..<nat (m_problem_size s)] step0_problem"
    and "built_state propagate s =
           (initial_guess propagate s)\<lparr>m_kinematic_constraint_residuals :=
              map (\<lambda>i. 3 * (i - 1) + 2) [Suc 0..<nat (m_problem_size s)]\<rparr>"
proof -
  from assms have ne: "m_rotations s \<noteq> []" "m_positions s \<noteq> []" "m_twists s \<noteq> []"
    by (simp_all add: mpc_invariant_def)
  have ne': "m_rotations (initial_guess propagate s) \<noteq> []"
    "m_positions (initial_guess propagate s) \<noteq> []"
    "m_twists (initial_guess propagate s) \<noteq> []"
    using ne initial_guess_fields(1-3) [OF ne, of propagate] by auto
  note res = build_optimization_problem_result [OF ne' fits_initial_guess [OF assms]]
  show "build_optimization_problem empty_Problem (initial_guess propagate s) =
           Inr (built_problem propagate s, built_state propagate s)"
    by (simp add: built_problem_def built_state_def res)
  show "built_problem propagate s =
           add_steps (time_step (m_options s)) [Suc 0..<nat (m_problem_size s)] step0_problem"
    by (simp add: built_problem_def res initial_guess_fields [OF ne])
  show "built_state propagate s =
           (initial_guess propagate s)\<lparr>m_kinematic_constraint_residuals :=
              map (\<lambda>i. 3 * (i - 1) + 2) [Suc 0..<nat (m_problem_size s)]\<rparr>"
    by (simp add: built_state_def res initial_guess_fields [OF ne])
qed

section \<open>The penalty iterations\<close>

lemma m_options_Solve: "m_options (Solve eng p s) = m_options s"
  by (simp add: Solve_def Let_def)

lemma penalty_iterations_preserves:
  "\<forall>t c. P t \<longrightarrow> P (Solve eng p (t\<lparr>m_constraint_penalty_coefficient_handle := Some c\<rparr>)) \<Longrightarrow>
   P s \<Longrightarrow> P (fst (snd (snd (snd (penalty_iterations eng cost_of p i c s tr)))))"
proof (induction eng cost_of p i c s tr rule: penalty_iterations.induct)
  case (1 eng cost_of p iteration penalty_coefficient s tr)
  note step = "1.prems"(1)
  show ?case
  proof (cases "iteration < max_penalty_iterations (m_options s)")
    case False
    then show ?thesis
      using "1.prems"(2) by (subst penalty_iterations.simps) simp
  next
    case True
    let ?s2 = "Solve eng p (s\<lparr>m_constraint_penalty_coefficient_handle := Some penalty_coefficient\<rparr>)"
    have P2: "P ?s2"
      using "1.prems" by blast
    show ?thesis
    proof (cases "is_feasible cost_of p ?s2")
      case (Inl e)
      with True P2 show ?thesis
        by (subst penalty_iterations.simps) (simp add: Let_def)
    next
      case (Inr b)
      show ?thesis
      proof (cases b)
        case True
        with \<open>iteration < max_penalty_iterations (m_options s)\<close> Inr P2 show ?thesis
          by (subst penalty_iterations.simps) (simp add: Let_def)
      next
        case False
        with \<open>iteration < max_penalty_iterations (m_options s)\<close> Inr
          "1.IH" [OF \<open>iteration < max_penalty_iterations (m_options s)\<close> refl refl refl refl _ _ step P2]
        show ?thesis
          by (subst penalty_iterations.simps) (simp add: Let_def)
      qed
    qed
  qed
qed


lemma m_options_penalty_state: "m_options (penalty_state eng p s j) = m_options s"
  by (induction j) (simp_all add: m_options_Solve)

lemma penalty_log_Suc:
  "penalty_log f (Suc n) = penalty_log f n @ [EngineSolve (f ^ n), RosInfoBriefReport]"
  by (simp add: penalty_log_def)

lemma penalty_iterations_infeasible:
  assumes "int n \<le> max_penalty_iterations (m_options s)"
    and "\<forall>j. 1 \<le> j \<and> j \<le> n \<longrightarrow> is_feasible cost_of p (penalty_state eng p s j) = Inr False"
  shows "penalty_iterations eng cost_of p 0 1 s tr =
     penalty_iterations eng cost_of p (int n) (penalty_increase_factor (m_options s) ^ n)
       (penalty_state eng p s n) (tr @ penalty_log (penalty_increase_factor (m_options s)) n)"
  using assms
proof (induction n)
  case 0
  then show ?case by (simp add: penalty_log_def)
next
  case (Suc n)
  let ?f = "penalty_increase_factor (m_options s)"
  have IH: "penalty_iterations eng cost_of p 0 1 s tr =
     penalty_iterations eng cost_of p (int n) (?f ^ n) (penalty_state eng p s n)
       (tr @ penalty_log ?f n)"
    using Suc by simp
  have "1 \<le> Suc n \<and> Suc n \<le> Suc n"
    by simp
  with Suc.prems(2) have infeasible:
    "is_feasible cost_of p (penalty_state eng p s (Suc n)) = Inr False"
    by blast
  have "penalty_iterations eng cost_of p (int n) (?f ^ n) (penalty_state eng p s n)
       (tr @ penalty_log ?f n) =
     penalty_iterations eng cost_of p (int (Suc n)) (?f ^ Suc n) (penalty_state eng p s (Suc n))
       (tr @ penalty_log ?f (Suc n))"
    using Suc.prems(1) infeasible
    by (subst penalty_iterations.simps)
       (simp add: Let_def m_options_penalty_state penalty_log_Suc power_commutes add.commute)
  with IH show ?case by simp
qed

lemma penalty_iterations_first_feasible:
  assumes "1 \<le> k" and "int k \<le> max_penalty_iterations (m_options s)"
    and "\<forall>j. 1 \<le> j \<and> j < k \<longrightarrow> is_feasible cost_of p (penalty_state eng p s j) = Inr False"
    and "is_feasible cost_of p (penalty_state eng p s k) = Inr True"
  shows "penalty_iterations eng cost_of p 0 1 s [] =
     (None, int k, penalty_increase_factor (m_options s) ^ (k - 1), penalty_state eng p s k,
      penalty_log (penalty_increase_factor (m_options s)) k @ [RosInfoFeasible (int k)])"
proof -
  from assms(1) obtain n where k: "k = Suc n"
    by (cases k) auto
  let ?f = "penalty_increase_factor (m_options s)"
  have "penalty_iterations eng cost_of p 0 1 s [] =
     penalty_iterations eng cost_of p (int n) (?f ^ n) (penalty_state eng p s n)
       ([] @ penalty_log ?f n)"
    using assms(2,3) unfolding k by (intro penalty_iterations_infeasible) auto
  also have "\<dots> = (None, int k, ?f ^ (k - 1), penalty_state eng p s k,
      penalty_log ?f k @ [RosInfoFeasible (int k)])"
    using assms(2,4) unfolding k
    by (subst penalty_iterations.simps)
       (simp add: Let_def m_options_penalty_state penalty_log_Suc)
  finally show ?thesis .
qed

lemma penalty_iterations_exhausted:
  assumes "\<forall>j. 1 \<le> j \<and> int j \<le> max_penalty_iterations (m_options s) \<longrightarrow>
             is_feasible cost_of p (penalty_state eng p s j) = Inr False"
  shows "penalty_iterations eng cost_of p 0 1 s [] =
     (None, int (nat (max_penalty_iterations (m_options s))),
      penalty_increase_factor (m_options s) ^ nat (max_penalty_iterations (m_options s)),
      penalty_state eng p s (nat (max_penalty_iterations (m_options s))),
      penalty_log (penalty_increase_factor (m_options s))
        (nat (max_penalty_iterations (m_options s))))"
proof -
  let ?f = "penalty_increase_factor (m_options s)"
  let ?n = "nat (max_penalty_iterations (m_options s))"
  have "penalty_iterations eng cost_of p 0 1 s [] =
     penalty_iterations eng cost_of p (int ?n) (?f ^ ?n) (penalty_state eng p s ?n)
       ([] @ penalty_log ?f ?n)"
  proof (cases "0 \<le> max_penalty_iterations (m_options s)")
    case True
    then show ?thesis
      using assms by (intro penalty_iterations_infeasible) auto
  next
    case False
    then show ?thesis by (simp add: penalty_log_def)
  qed
  also have "\<dots> = (None, int ?n, ?f ^ ?n, penalty_state eng p s ?n, penalty_log ?f ?n)"
    by (subst penalty_iterations.simps) (simp add: m_options_penalty_state)
  finally show ?thesis .
qed

lemma engine_coefficients_append:
  "engine_coefficients (xs @ ys) = engine_coefficients xs @ engine_coefficients ys"
  by (induction xs rule: engine_coefficients.induct) simp_all

lemma engine_coefficients_penalty_log:
  "engine_coefficients (penalty_log f n) = map (\<lambda>j. f ^ j) [0..<n]"
  by (induction n) (simp_all add: penalty_log_Suc engine_coefficients_append, simp add: penalty_log_def)

lemma penalty_iterations_coefficients:
  "\<exists>m. engine_coefficients (snd (snd (snd (snd (penalty_iterations eng cost_of p i c s tr))))) =
     engine_coefficients tr @ map (\<lambda>j. c * penalty_increase_factor (m_options s) ^ j) [0..<m]"
proof (induction eng cost_of p i c s tr rule: penalty_iterations.induct)
  case (1 eng cost_of p iteration penalty_coefficient s tr)
  let ?f = "penalty_increase_factor (m_options s)"
  let ?c = penalty_coefficient
  show ?case
  proof (cases "iteration < max_penalty_iterations (m_options s)")
    case False
    then have "engine_coefficients (snd (snd (snd (snd
        (penalty_iterations eng cost_of p iteration ?c s tr))))) =
        engine_coefficients tr @ map (\<lambda>j. ?c * ?f ^ j) [0..<0]"
      by (subst penalty_iterations.simps) simp
    then show ?thesis ..
  next
    case True
    let ?s2 = "Solve eng p (s\<lparr>m_constraint_penalty_coefficient_handle := Some ?c\<rparr>)"
    let ?tr' = "tr @ [EngineSolve ?c, RosInfoBriefReport]"
    have one: "engine_coefficients ?tr' = engine_coefficients tr @ map (\<lambda>j. ?c * ?f ^ j) [0..<1]"
      by (simp add: engine_coefficients_append)
    show ?thesis
    proof (cases "is_feasible cost_of p ?s2 = Inr False")
      case False
      then have "engine_coefficients (snd (snd (snd (snd
          (penalty_iterations eng cost_of p iteration ?c s tr))))) =
          engine_coefficients tr @ map (\<lambda>j. ?c * ?f ^ j) [0..<1]"
        using True
        by (subst penalty_iterations.simps)
           (auto simp: Let_def engine_coefficients_append split: sum.splits bool.splits)
      then show ?thesis ..
    next
      case infeasible: True
      from "1.IH" [OF True refl refl refl refl _ _, of False] infeasible
      obtain m where m: "engine_coefficients (snd (snd (snd (snd
          (penalty_iterations eng cost_of p (iteration + 1) (?c * ?f) ?s2 ?tr'))))) =
          engine_coefficients ?tr' @ map (\<lambda>j. ?c * ?f * ?f ^ j) [0..<m]"
        by (auto simp: m_options_Solve)
      have "engine_coefficients (snd (snd (snd (snd
          (penalty_iterations eng cost_of p iteration ?c s tr))))) =
          engine_coefficients tr @ map (\<lambda>j. ?c * ?f ^ j) [0..<Suc m]"
        using True infeasible m
        by (subst penalty_iterations.simps)
           (simp add: Let_def engine_coefficients_append map_upt_Suc mult.assoc del: upt_Suc)
      then show ?thesis ..
    qed
  qed
qed

section \<open>The results of solve\<close>

lemma built_state_fields:
  assumes "mpc_invariant s"
  shows "m_options (built_state propagate s) = m_options s"
    and "m_rotations (built_state propagate s) = m_rotations (initial_guess propagate s)"
    and "m_positions (built_state propagate s) = m_positions (initial_guess propagate s)"
    and "m_twists (built_state propagate s) = m_twists (initial_guess propagate s)"
    and "m_kinematic_constraint_residuals (built_state propagate s) =
           map (\<lambda>i. 3 * (i - 1) + 2) [Suc 0..<nat (m_problem_size s)]"
proof -
  from assms have ne: "m_rotations s \<noteq> []" "m_positions s \<noteq> []" "m_twists s \<noteq> []"
    by (simp_all add: mpc_invariant_def)
  show "m_options (built_state propagate s) = m_options s"
    by (simp add: build_after_initial_guess(3) [OF assms] initial_guess_fields [OF ne])
  show "m_rotations (built_state propagate s) = m_rotations (initial_guess propagate s)"
    "m_positions (built_state propagate s) = m_positions (initial_guess propagate s)"
    "m_twists (built_state propagate s) = m_twists (initial_guess propagate s)"
    "m_kinematic_constraint_residuals (built_state propagate s) =
           map (\<lambda>i. 3 * (i - 1) + 2) [Suc 0..<nat (m_problem_size s)]"
    by (simp_all add: build_after_initial_guess(3) [OF assms])
qed

lemma solve_unfold:
  assumes "m_reference_path_set s" and "mpc_invariant s"
  shows "solve propagate eng cost_of s =
     (case penalty_iterations eng cost_of (built_problem propagate s) 0 1
             (built_state propagate s) [] of
        (Some e, iteration, c, s3, tr) \<Rightarrow> (Some e, s3, tr)
      | (None, iteration, c, s3, tr) \<Rightarrow>
          (None, s3,
           if iteration \<ge> max_penalty_iterations (m_options s3)
           then tr @ [RosWarnMaxIterations] else tr))"
proof -
  from assms(2) have ne: "m_rotations s \<noteq> []" "m_positions s \<noteq> []" "m_twists s \<noteq> []"
    by (simp_all add: mpc_invariant_def)
  show ?thesis
    using assms(1)
    by (simp add: solve_def generate_initial_values_result [OF ne]
        build_after_initial_guess(1) [OF assms(2)])
qed

lemma solve_first_feasible:
  assumes "m_reference_path_set s" and "mpc_invariant s"
    and "1 \<le> k" and "int k \<le> max_penalty_iterations (m_options s)"
    and "\<forall>j. 1 \<le> j \<and> j < k \<longrightarrow>
           is_feasible cost_of (built_problem propagate s)
             (penalty_state eng (built_problem propagate s) (built_state propagate s) j) =
           Inr False"
    and "is_feasible cost_of (built_problem propagate s)
           (penalty_state eng (built_problem propagate s) (built_state propagate s) k) =
         Inr True"
  shows "solve propagate eng cost_of s =
     (None, penalty_state eng (built_problem propagate s) (built_state propagate s) k,
      penalty_log (penalty_increase_factor (m_options s)) k @ [RosInfoFeasible (int k)] @
      (if max_penalty_iterations (m_options s) \<le> int k then [RosWarnMaxIterations] else []))"
proof -
  note opts = built_state_fields(1) [OF assms(2), of propagate]
  have "penalty_iterations eng cost_of (built_problem propagate s) 0 1
          (built_state propagate s) [] =
     (None, int k, penalty_increase_factor (m_options s) ^ (k - 1),
      penalty_state eng (built_problem propagate s) (built_state propagate s) k,
      penalty_log (penalty_increase_factor (m_options s)) k @ [RosInfoFeasible (int k)])"
    using penalty_iterations_first_feasible [OF assms(3) _ assms(5,6)] assms(4)
    by (simp add: opts)
  then show ?thesis
    by (simp add: solve_unfold [OF assms(1,2)] m_options_penalty_state opts)
qed

lemma solve_exhausted:
  assumes "m_reference_path_set s" and "mpc_invariant s"
    and "\<forall>j. 1 \<le> j \<and> int j \<le> max_penalty_iterations (m_options s) \<longrightarrow>
           is_feasible cost_of (built_problem propagate s)
             (penalty_state eng (built_problem propagate s) (built_state propagate s) j) =
           Inr False"
  shows "solve propagate eng cost_of s =
     (None,
      penalty_state eng (built_problem propagate s) (built_state propagate s)
        (nat (max_penalty_iterations (m_options s))),
      penalty_log (penalty_increase_factor (m_options s))
        (nat (max_penalty_iterations (m_options s))) @ [RosWarnMaxIterations])"
proof -
  note opts = built_state_fields(1) [OF assms(2), of propagate]
  have "penalty_iterations eng cost_of (built_problem propagate s) 0 1
          (built_state propagate s) [] =
     (None, int (nat (max_penalty_iterations (m_options s))),
      penalty_increase_factor (m_options s) ^ nat (max_penalty_iterations (m_options s)),
      penalty_state eng (built_problem propagate s) (built_state propagate s)
        (nat (max_penalty_iterations (m_options s))),
      penalty_log (penalty_increase_factor (m_options s))
        (nat (max_penalty_iterations (m_options s))))"
    using penalty_iterations_exhausted [of "built_state propagate s" cost_of
        "built_problem propagate s" eng] assms(3)
    by (simp add: opts)
  then show ?thesis
    by (simp add: solve_unfold [OF assms(1,2)] m_options_penalty_state opts)
qed

lemma engine_coefficients_no_solve [simp]:
  "engine_coefficients [RosInfoFeasible i] = []"
  "engine_coefficients [RosWarnMaxIterations] = []"
  by simp_all

text \<open>
  What \<^verbatim>\<open>is_feasible\<close> decides, on the costs: it answers true exactly when every recorded
  block evaluates to a cost of at most \<^verbatim>\<open>max_constraint_cost\<close>, and where every recorded
  block evaluates it answers false exactly when one of them costs more.
\<close>

lemma is_feasible_loop_True_iff:
  "is_feasible_loop cost_of p s ids = Inr True \<longleftrightarrow>
     (\<forall>residual_id \<in> set ids.
        case EvaluateResidualBlock cost_of p s residual_id of
          None \<Rightarrow> False
        | Some cost \<Rightarrow> cost \<le> max_constraint_cost (m_options s))"
  by (induction ids) (auto split: option.splits)

lemma is_feasible_loop_evaluated:
  "\<forall>residual_id \<in> set ids. EvaluateResidualBlock cost_of p s residual_id \<noteq> None \<Longrightarrow>
   is_feasible_loop cost_of p s ids =
     Inr (\<forall>residual_id \<in> set ids.
            case EvaluateResidualBlock cost_of p s residual_id of
              None \<Rightarrow> False
            | Some cost \<Rightarrow> cost \<le> max_constraint_cost (m_options s))"
  by (induction ids) (auto split: option.splits)

lemma is_feasible_True_iff:
  "is_feasible cost_of p s = Inr True \<longleftrightarrow> feasible_by_costs cost_of p s"
  by (simp add: is_feasible_def feasible_by_costs_def is_feasible_loop_True_iff)

lemma is_feasible_evaluated:
  "costs_evaluated cost_of p s \<Longrightarrow>
   is_feasible cost_of p s = Inr (feasible_by_costs cost_of p s)"
  by (simp add: is_feasible_def feasible_by_costs_def costs_evaluated_def
      is_feasible_loop_evaluated)

lemma is_feasible_False_iff:
  "costs_evaluated cost_of p s \<Longrightarrow>
   is_feasible cost_of p s = Inr False \<longleftrightarrow> \<not> feasible_by_costs cost_of p s"
  by (simp add: is_feasible_evaluated)

lemma is_feasible_failure:
  "is_feasible cost_of p s = Inl e \<Longrightarrow> \<not> costs_evaluated cost_of p s"
  by (auto simp add: is_feasible_evaluated)

text \<open>
  Claim C1. In a reachable state with the reference path set, an iteration being feasible
  when every recorded kinematic-constraint residual block costs at most
  \<^verbatim>\<open>max_constraint_cost\<close>, and infeasible when every recorded block evaluates and one of
  them costs more: if feasibility is first reached on iteration
  \<open>k \<le> max_penalty_iterations\<close>, \<^verbatim>\<open>solve\<close> returns the state after exactly \<open>k\<close> iterations
  and has invoked the engine exactly \<open>k\<close> times; if every iteration up to
  \<^verbatim>\<open>max_penalty_iterations\<close> is infeasible, it returns the state after exactly
  \<^verbatim>\<open>max_penalty_iterations\<close> iterations, with as many invocations; and if
  \<^verbatim>\<open>max_penalty_iterations\<close> is 0 (or less), the engine is not invoked and the horizon
  returned is the initial guess.
\<close>

theorem solve_penalty_iterations:
  assumes "m_reference_path_set s" and "mpc_invariant s"
  shows "(\<forall>k. 1 \<le> k \<and> int k \<le> max_penalty_iterations (m_options s) \<and>
            (\<forall>j. 1 \<le> j \<and> j < k \<longrightarrow>
               costs_evaluated cost_of (built_problem propagate s)
                 (penalty_state eng (built_problem propagate s) (built_state propagate s) j) \<and>
               \<not> feasible_by_costs cost_of (built_problem propagate s)
                 (penalty_state eng (built_problem propagate s) (built_state propagate s) j)) \<and>
            feasible_by_costs cost_of (built_problem propagate s)
              (penalty_state eng (built_problem propagate s) (built_state propagate s) k) \<longrightarrow>
          fst (solve propagate eng cost_of s) = None \<and>
          fst (snd (solve propagate eng cost_of s)) =
            penalty_state eng (built_problem propagate s) (built_state propagate s) k \<and>
          length (engine_coefficients (snd (snd (solve propagate eng cost_of s)))) = k) \<and>
         ((\<forall>j. 1 \<le> j \<and> int j \<le> max_penalty_iterations (m_options s) \<longrightarrow>
               costs_evaluated cost_of (built_problem propagate s)
                 (penalty_state eng (built_problem propagate s) (built_state propagate s) j) \<and>
               \<not> feasible_by_costs cost_of (built_problem propagate s)
                 (penalty_state eng (built_problem propagate s) (built_state propagate s) j)) \<longrightarrow>
          fst (solve propagate eng cost_of s) = None \<and>
          fst (snd (solve propagate eng cost_of s)) =
            penalty_state eng (built_problem propagate s) (built_state propagate s)
              (nat (max_penalty_iterations (m_options s))) \<and>
          length (engine_coefficients (snd (snd (solve propagate eng cost_of s)))) =
            nat (max_penalty_iterations (m_options s))) \<and>
         (max_penalty_iterations (m_options s) \<le> 0 \<longrightarrow>
          fst (solve propagate eng cost_of s) = None \<and>
          engine_coefficients (snd (snd (solve propagate eng cost_of s))) = [] \<and>
          m_rotations (fst (snd (solve propagate eng cost_of s))) =
            m_rotations (initial_guess propagate s) \<and>
          m_positions (fst (snd (solve propagate eng cost_of s))) =
            m_positions (initial_guess propagate s) \<and>
          m_twists (fst (snd (solve propagate eng cost_of s))) =
            m_twists (initial_guess propagate s))"
proof (intro conjI allI impI)
  fix k
  assume k: "1 \<le> k \<and> int k \<le> max_penalty_iterations (m_options s) \<and>
            (\<forall>j. 1 \<le> j \<and> j < k \<longrightarrow>
               costs_evaluated cost_of (built_problem propagate s)
                 (penalty_state eng (built_problem propagate s) (built_state propagate s) j) \<and>
               \<not> feasible_by_costs cost_of (built_problem propagate s)
                 (penalty_state eng (built_problem propagate s) (built_state propagate s) j)) \<and>
            feasible_by_costs cost_of (built_problem propagate s)
              (penalty_state eng (built_problem propagate s) (built_state propagate s) k)"
  then have infeasible: "\<forall>j. 1 \<le> j \<and> j < k \<longrightarrow>
      is_feasible cost_of (built_problem propagate s)
        (penalty_state eng (built_problem propagate s) (built_state propagate s) j) =
      Inr False"
    by (simp add: is_feasible_evaluated)
  from k have feasible: "is_feasible cost_of (built_problem propagate s)
      (penalty_state eng (built_problem propagate s) (built_state propagate s) k) =
    Inr True"
    by (simp add: is_feasible_True_iff)
  from k have "1 \<le> k" "int k \<le> max_penalty_iterations (m_options s)"
    by simp_all
  note eq = solve_first_feasible [OF assms this infeasible feasible]
  show "fst (solve propagate eng cost_of s) = None"
    "fst (snd (solve propagate eng cost_of s)) =
      penalty_state eng (built_problem propagate s) (built_state propagate s) k"
    "length (engine_coefficients (snd (snd (solve propagate eng cost_of s)))) = k"
    by (simp_all add: eq engine_coefficients_append engine_coefficients_penalty_log)
next
  assume "\<forall>j. 1 \<le> j \<and> int j \<le> max_penalty_iterations (m_options s) \<longrightarrow>
               costs_evaluated cost_of (built_problem propagate s)
                 (penalty_state eng (built_problem propagate s) (built_state propagate s) j) \<and>
               \<not> feasible_by_costs cost_of (built_problem propagate s)
                 (penalty_state eng (built_problem propagate s) (built_state propagate s) j)"
  then have never: "\<forall>j. 1 \<le> j \<and> int j \<le> max_penalty_iterations (m_options s) \<longrightarrow>
               is_feasible cost_of (built_problem propagate s)
                 (penalty_state eng (built_problem propagate s) (built_state propagate s) j) =
               Inr False"
    by (simp add: is_feasible_evaluated)
  note eq = solve_exhausted [OF assms never]
  show "fst (solve propagate eng cost_of s) = None"
    "fst (snd (solve propagate eng cost_of s)) =
      penalty_state eng (built_problem propagate s) (built_state propagate s)
        (nat (max_penalty_iterations (m_options s)))"
    "length (engine_coefficients (snd (snd (solve propagate eng cost_of s)))) =
      nat (max_penalty_iterations (m_options s))"
    by (simp_all add: eq engine_coefficients_append engine_coefficients_penalty_log)
next
  assume zero: "max_penalty_iterations (m_options s) \<le> 0"
  then have "\<forall>j. 1 \<le> j \<and> int j \<le> max_penalty_iterations (m_options s) \<longrightarrow>
               is_feasible cost_of (built_problem propagate s)
                 (penalty_state eng (built_problem propagate s) (built_state propagate s) j) =
               Inr False"
    by auto
  note eq = solve_exhausted [OF assms this]
  from zero have n: "nat (max_penalty_iterations (m_options s)) = 0"
    by simp
  show "fst (solve propagate eng cost_of s) = None"
    "engine_coefficients (snd (snd (solve propagate eng cost_of s))) = []"
    "m_rotations (fst (snd (solve propagate eng cost_of s))) =
       m_rotations (initial_guess propagate s)"
    "m_positions (fst (snd (solve propagate eng cost_of s))) =
       m_positions (initial_guess propagate s)"
    "m_twists (fst (snd (solve propagate eng cost_of s))) =
       m_twists (initial_guess propagate s)"
    by (simp_all add: eq n penalty_log_def built_state_fields [OF assms(2)])
qed

lemma for_each_invariant:
  assumes "\<And>i x y. f i x = Inr y \<Longrightarrow> Q x \<Longrightarrow> Q y"
  shows "for_each f is x = Inr y \<Longrightarrow> Q x \<Longrightarrow> Q y"
proof (induction "is" arbitrary: x)
  case Nil
  then show ?case by simp
next
  case (Cons i "is")
  from Cons.prems(1) obtain x' where x': "f i x = Inr x'" "for_each f is x' = Inr y"
    by (auto split: sum.splits)
  from assms [OF x'(1) Cons.prems(2)] have "Q x'" .
  with Cons.IH x'(2) show ?case by blast
qed

lemma build_step_Inr:
  assumes "build_step i ps = Inr ps'"
  shows "fst ps' = fst (add_step (time_step (m_options (snd ps))) i (fst ps))"
    and "\<exists>ks. snd ps' = (snd ps)\<lparr>m_kinematic_constraint_residuals := ks\<rparr>"
  using assms by (auto simp: build_step_def Let_def split: if_splits)

lemma build_optimization_problem_Inr:
  assumes "build_optimization_problem empty_Problem s = Inr ps"
  shows "twists_diffdrive (fst ps)"
    and "\<exists>ks. snd ps = s\<lparr>m_kinematic_constraint_residuals := ks\<rparr>"
proof -
  let ?Q = "\<lambda>ps. twists_diffdrive (fst ps) \<and>
     (\<exists>ks. snd ps = s\<lparr>m_kinematic_constraint_residuals := ks\<rparr>)"
  let ?p0 = "SetParameterBlockConstant (TwistBlock 0)
      (SetParameterBlockConstant (PositionBlock 0)
        (SetParameterBlockConstant (RotationBlock 0)
          (AddParameterBlock (TwistBlock 0) 3 (Some (SubsetParameterization 3 [2]))
            (AddParameterBlock (PositionBlock 0) 2 None
              (AddParameterBlock (RotationBlock 0) 4 (Some Rotation2DParameterization)
                 empty_Problem)))))"
  have step: "?Q y" if "build_step i x = Inr y" "?Q x" for i x y
  proof -
    from that(2) obtain ks where ks: "snd x = s\<lparr>m_kinematic_constraint_residuals := ks\<rparr>"
      by blast
    from build_step_Inr(2) [OF that(1)] obtain ks'
      where "snd y = (snd x)\<lparr>m_kinematic_constraint_residuals := ks'\<rparr>"
      by blast
    then have "snd y = s\<lparr>m_kinematic_constraint_residuals := ks'\<rparr>"
      by (simp add: ks)
    moreover have "twists_diffdrive (fst y)"
      using that(2) by (simp add: build_step_Inr(1) [OF that(1)] twists_diffdrive_add_step)
    ultimately show ?thesis by blast
  qed
  have run: "for_each build_step [1..<nat (m_problem_size s)]
      (?p0, s\<lparr>m_kinematic_constraint_residuals := []\<rparr>) = Inr ps"
    using assms by (simp add: build_optimization_problem_def Let_def split: if_splits)
  have "?p0 = step0_problem"
    by (simp add: problem_calls empty_Problem_def step0_problem_def)
  then have "twists_diffdrive ?p0"
    by (simp add: twists_diffdrive_def step0_problem_def)
  then have "?Q (?p0, s\<lparr>m_kinematic_constraint_residuals := []\<rparr>)"
    by auto
  then have "?Q ps"
  proof (rule for_each_invariant [of build_step ?Q, OF _ run, rotated])
    fix i x y
    assume "build_step i x = Inr y" and "?Q x"
    then show "?Q y" by (rule step)
  qed
  then show "twists_diffdrive (fst ps)"
    and "\<exists>ks. snd ps = s\<lparr>m_kinematic_constraint_residuals := ks\<rparr>"
    by blast+
qed

lemma generate_initial_values_Inr:
  assumes "generate_initial_values propagate s = Inr s1"
  shows "s1 = s\<lparr>m_positions := m_positions s1, m_rotations := m_rotations s1,
                m_twists := m_twists s1\<rparr>"
    and "m_twists s1 = m_twists s @ replicate (nat (m_problem_size s) - 1) (m_twists s ! 0)"
    and "length (m_rotations s1) = length (m_rotations s) + (nat (m_problem_size s) - 1)"
    and "length (m_positions s1) = length (m_positions s) + (nat (m_problem_size s) - 1)"
    and "m_twists s \<noteq> []"
    and "m_options s1 = m_options s"
    and "m_problem_size s1 = m_problem_size s"
    and "m_reference_path_set s1 = m_reference_path_set s"
    and "m_reference_rotations s1 = m_reference_rotations s"
    and "m_reference_positions s1 = m_reference_positions s"
  using assms
  by (auto simp: generate_initial_values_def generate_loop_result split: if_splits)

text \<open>The shape of every result of \<^verbatim>\<open>solve\<close> once the reference path is set.\<close>

lemma solve_cases:
  assumes "m_reference_path_set s"
  obtains (no_guess) e where "generate_initial_values propagate s = Inl e"
      and "solve propagate eng cost_of s = (Some e, s, [])"
    | (no_problem) s1 e where "generate_initial_values propagate s = Inr s1"
      and "build_optimization_problem empty_Problem s1 = Inl e"
      and "solve propagate eng cost_of s = (Some e, s1, [])"
    | (iterated) s1 ps r where "generate_initial_values propagate s = Inr s1"
      and "build_optimization_problem empty_Problem s1 = Inr ps"
      and "r = penalty_iterations eng cost_of (fst ps) 0 1 (snd ps) []"
      and "fst (solve propagate eng cost_of s) = fst r"
      and "fst (snd (solve propagate eng cost_of s)) = fst (snd (snd (snd r)))"
      and "engine_coefficients (snd (snd (solve propagate eng cost_of s))) =
           engine_coefficients (snd (snd (snd (snd r))))"
proof (cases "generate_initial_values propagate s")
  case (Inl e)
  with assms have "solve propagate eng cost_of s = (Some e, s, [])"
    by (simp add: solve_def)
  with Inl show ?thesis by (rule no_guess)
next
  case s1: (Inr s1)
  show ?thesis
  proof (cases "build_optimization_problem empty_Problem s1")
    case (Inl e)
    with assms s1 have "solve propagate eng cost_of s = (Some e, s1, [])"
      by (simp add: solve_def)
    with s1 Inl show ?thesis by (rule no_problem)
  next
    case (Inr ps)
    obtain a i c t tr where r: "penalty_iterations eng cost_of (fst ps) 0 1 (snd ps) [] =
        (a, i, c, t, tr)"
      by (cases "penalty_iterations eng cost_of (fst ps) 0 1 (snd ps) []") auto
    have "fst (solve propagate eng cost_of s) = a"
      "fst (snd (solve propagate eng cost_of s)) = t"
      "engine_coefficients (snd (snd (solve propagate eng cost_of s))) = engine_coefficients tr"
      using assms s1 Inr r
      by (cases a; simp add: solve_def engine_coefficients_append)+
    then show ?thesis
      by (intro iterated [OF s1 Inr refl]) (simp_all add: r)
  qed
qed

lemma sorted_powers: "1 \<le> (f::real) \<Longrightarrow> sorted (map (\<lambda>j. f ^ j) [0..<m])"
  by (simp add: sorted_map sorted_wrt_mono_rel [OF _ sorted_wrt_upt] power_increasing)

text \<open>
  Claim C2, as amended. In every call of \<^verbatim>\<open>solve\<close> the scale given to the
  kinematic-consistency residuals at the successive invocations of the engine is
  \<open>1, f, f\<^sup>2, \<dots>\<close> for \<open>f\<close> the \<^verbatim>\<open>penalty_increase_factor\<close>: it starts at 1 and is multiplied
  by exactly \<open>f\<close> after each iteration that is not feasible. It is non-decreasing
  whenever \<open>f \<ge> 1\<close>.
\<close>

theorem solve_penalty_coefficients:
  "(\<exists>m. engine_coefficients (snd (snd (solve propagate eng cost_of s))) =
          map (\<lambda>j. penalty_increase_factor (m_options s) ^ j) [0..<m]) \<and>
   (1 \<le> penalty_increase_factor (m_options s) \<longrightarrow>
      sorted (engine_coefficients (snd (snd (solve propagate eng cost_of s)))))"
proof -
  have ex: "\<exists>m. engine_coefficients (snd (snd (solve propagate eng cost_of s))) =
          map (\<lambda>j. penalty_increase_factor (m_options s) ^ j) [0..<m]"
  proof (cases "m_reference_path_set s")
    case False
    then have "engine_coefficients (snd (snd (solve propagate eng cost_of s))) =
        map (\<lambda>j. penalty_increase_factor (m_options s) ^ j) [0..<0]"
      by (simp add: solve_def)
    then show ?thesis ..
  next
    case True
    then show ?thesis
    proof (cases rule: solve_cases [of s propagate eng cost_of])
      case (no_guess e)
      then have "engine_coefficients (snd (snd (solve propagate eng cost_of s))) =
          map (\<lambda>j. penalty_increase_factor (m_options s) ^ j) [0..<0]"
        by simp
      then show ?thesis ..
    next
      case (no_problem s1 e)
      then have "engine_coefficients (snd (snd (solve propagate eng cost_of s))) =
          map (\<lambda>j. penalty_increase_factor (m_options s) ^ j) [0..<0]"
        by simp
      then show ?thesis ..
    next
      case (iterated s1 ps r)
      from build_optimization_problem_Inr(2) [OF iterated(2)]
      have "m_options (snd ps) = m_options s1"
        by auto
      moreover note generate_initial_values_Inr(6) [OF iterated(1)]
      ultimately have opts: "m_options (snd ps) = m_options s"
        by simp
      from penalty_iterations_coefficients [of eng cost_of "fst ps" 0 1 "snd ps" "[]"]
      show ?thesis
        by (simp add: iterated(3,6) opts)
    qed
  qed
  then obtain m where m: "engine_coefficients (snd (snd (solve propagate eng cost_of s))) =
          map (\<lambda>j. penalty_increase_factor (m_options s) ^ j) [0..<m]" ..
  show ?thesis
    using ex by (auto simp: m sorted_powers)
qed

lemma no_warning_in_penalty_log: "RosWarnMaxIterations \<notin> set (penalty_log f n)"
  by (simp add: penalty_log_def)

text \<open>
  When \<^verbatim>\<open>solve\<close> raises the iteration-limit warning. In a reachable state with the
  reference path set, no warning is raised when feasibility is first reached on an
  iteration before the last one. The warning is raised whenever no iteration before the
  last one is feasible, whether the last iteration is feasible or not (and when
  \<^verbatim>\<open>max_penalty_iterations\<close> allows no iteration at all); the call then still returns
  normally, with the state the last iteration left.
\<close>

theorem solve_iteration_limit_warning:
  assumes "m_reference_path_set s" and "mpc_invariant s"
  shows "(\<forall>k. 1 \<le> k \<and> int k < max_penalty_iterations (m_options s) \<and>
            (\<forall>j. 1 \<le> j \<and> j < k \<longrightarrow>
               is_feasible cost_of (built_problem propagate s)
                 (penalty_state eng (built_problem propagate s) (built_state propagate s) j) =
               Inr False) \<and>
            is_feasible cost_of (built_problem propagate s)
              (penalty_state eng (built_problem propagate s) (built_state propagate s) k) =
            Inr True \<longrightarrow>
          RosWarnMaxIterations \<notin> set (snd (snd (solve propagate eng cost_of s)))) \<and>
         (\<forall>b. (\<forall>j. 1 \<le> j \<and> int j < max_penalty_iterations (m_options s) \<longrightarrow>
               is_feasible cost_of (built_problem propagate s)
                 (penalty_state eng (built_problem propagate s) (built_state propagate s) j) =
               Inr False) \<and>
            (1 \<le> max_penalty_iterations (m_options s) \<longrightarrow>
               is_feasible cost_of (built_problem propagate s)
                 (penalty_state eng (built_problem propagate s) (built_state propagate s)
                    (nat (max_penalty_iterations (m_options s)))) = Inr b) \<longrightarrow>
          RosWarnMaxIterations \<in> set (snd (snd (solve propagate eng cost_of s))) \<and>
          fst (solve propagate eng cost_of s) = None \<and>
          fst (snd (solve propagate eng cost_of s)) =
            penalty_state eng (built_problem propagate s) (built_state propagate s)
              (nat (max_penalty_iterations (m_options s))))"
proof (intro conjI allI impI)
  fix k
  assume k: "1 \<le> k \<and> int k < max_penalty_iterations (m_options s) \<and>
            (\<forall>j. 1 \<le> j \<and> j < k \<longrightarrow>
               is_feasible cost_of (built_problem propagate s)
                 (penalty_state eng (built_problem propagate s) (built_state propagate s) j) =
               Inr False) \<and>
            is_feasible cost_of (built_problem propagate s)
              (penalty_state eng (built_problem propagate s) (built_state propagate s) k) =
            Inr True"
  then have "solve propagate eng cost_of s =
     (None, penalty_state eng (built_problem propagate s) (built_state propagate s) k,
      penalty_log (penalty_increase_factor (m_options s)) k @ [RosInfoFeasible (int k)] @
      (if max_penalty_iterations (m_options s) \<le> int k then [RosWarnMaxIterations] else []))"
    by (intro solve_first_feasible assms) simp_all
  with k show "RosWarnMaxIterations \<notin> set (snd (snd (solve propagate eng cost_of s)))"
    by (simp add: no_warning_in_penalty_log)
next
  fix b
  let ?M = "max_penalty_iterations (m_options s)"
  let ?feasible = "\<lambda>j. is_feasible cost_of (built_problem propagate s)
      (penalty_state eng (built_problem propagate s) (built_state propagate s) j)"
  assume h: "(\<forall>j. 1 \<le> j \<and> int j < ?M \<longrightarrow> ?feasible j = Inr False) \<and>
      (1 \<le> ?M \<longrightarrow> ?feasible (nat ?M) = Inr b)"
  have "solve propagate eng cost_of s =
      (None, penalty_state eng (built_problem propagate s) (built_state propagate s) (nat ?M),
       snd (snd (solve propagate eng cost_of s))) \<and>
     RosWarnMaxIterations \<in> set (snd (snd (solve propagate eng cost_of s)))"
  proof (cases "1 \<le> ?M \<and> b")
    case True
    with h have last: "?feasible (nat ?M) = Inr True"
      by simp
    have before: "\<forall>j. 1 \<le> j \<and> j < nat ?M \<longrightarrow> ?feasible j = Inr False"
      using h by auto
    have "solve propagate eng cost_of s =
      (None, penalty_state eng (built_problem propagate s) (built_state propagate s) (nat ?M),
       penalty_log (penalty_increase_factor (m_options s)) (nat ?M) @
       [RosInfoFeasible (int (nat ?M))] @
       (if ?M \<le> int (nat ?M) then [RosWarnMaxIterations] else []))"
    proof (intro solve_first_feasible assms before last)
      from True show "1 \<le> nat ?M" by linarith
      from True show "int (nat ?M) \<le> ?M" by simp
    qed
    then show ?thesis by simp
  next
    case False
    have "\<forall>j. 1 \<le> j \<and> int j \<le> ?M \<longrightarrow> ?feasible j = Inr False"
    proof (intro allI impI)
      fix j
      assume j: "1 \<le> j \<and> int j \<le> ?M"
      show "?feasible j = Inr False"
      proof (cases "int j < ?M")
        case True
        with h j show ?thesis by blast
      next
        case eq: False
        with j have "j = nat ?M" "1 \<le> ?M" by linarith+
        with h False show ?thesis by simp
      qed
    qed
    from solve_exhausted [OF assms this] show ?thesis by simp
  qed
  then show "RosWarnMaxIterations \<in> set (snd (snd (solve propagate eng cost_of s)))"
    "fst (solve propagate eng cost_of s) = None"
    "fst (snd (solve propagate eng cost_of s)) =
       penalty_state eng (built_problem propagate s) (built_state propagate s) (nat ?M)"
    by (simp_all add: prod_eq_iff)
qed

section \<open>The structure of the built problem\<close>

lemma concat_steps_Suc:
  "Suc 0 \<le> n \<Longrightarrow>
   concat (map f [Suc 0..<Suc n]) = concat (map f [Suc 0..<n]) @ f n"
  by simp

lemma nth_concat_steps:
  assumes "\<And>i. length (f i) = 3"
  shows "1 \<le> i \<Longrightarrow> i < n \<Longrightarrow> k < 3 \<Longrightarrow>
    concat (map f [Suc 0..<n]) ! (3 * (i - 1) + k) = f i ! k"
proof (induction n)
  case 0
  then show ?case by simp
next
  case (Suc n)
  have len: "length (concat (map f [Suc 0..<n])) = 3 * (n - 1)"
    by (induction n) (auto simp: assms)
  from Suc.prems have n: "Suc 0 \<le> n" by simp
  show ?case
  proof (cases "i < n")
    case True
    with Suc have "3 * (i - 1) + k < 3 * (n - 1)" by simp
    with Suc True show ?thesis
      by (simp add: concat_steps_Suc [OF n] nth_append len del: upt_Suc)
  next
    case False
    with Suc.prems have "i = n" by simp
    with Suc.prems show ?thesis
      by (simp add: concat_steps_Suc [OF n] nth_append len del: upt_Suc)
  qed
qed

lemma is_feasible_no_residuals:
  "m_kinematic_constraint_residuals s = [] \<Longrightarrow> is_feasible cost_of p s = Inr True"
  by (simp add: is_feasible_def)

text \<open>
  Claim C9. For a problem size \<open>N \<ge> 1\<close> and buffers of at least \<open>N\<close> elements,
  \<^verbatim>\<open>build_optimization_problem\<close> succeeds; the blocks of step 0 are constant; the residual
  blocks are exactly, for \<open>i = 1, \<dots>, N - 1\<close> in order, one reference-tracking block at
  \<open>i\<close>, one velocity-change block of \<open>i\<close> against \<open>i - 1\<close> and one kinematic-consistency
  block of \<open>i\<close> against \<open>i - 1\<close>, so no velocity-change or kinematic-consistency block
  belongs to step 0; exactly \<open>N - 1\<close> identities are recorded, the one for step \<open>i\<close>
  being that of its kinematic-consistency block; and for \<open>N = 1\<close> there is no residual
  block and \<^verbatim>\<open>is_feasible\<close> answers true.
\<close>

theorem build_optimization_problem_structure:
  assumes "1 \<le> m_problem_size s" and "fits s (nat (m_problem_size s))"
  shows "\<exists>p s'. build_optimization_problem empty_Problem s = Inr (p, s') \<and>
    RotationBlock 0 \<in> set (constant_blocks p) \<and>
    PositionBlock 0 \<in> set (constant_blocks p) \<and>
    TwistBlock 0 \<in> set (constant_blocks p) \<and>
    \<not> is_variable p (RotationBlock 0) \<and> \<not> is_variable p (PositionBlock 0) \<and>
    \<not> is_variable p (TwistBlock 0) \<and>
    residual_blocks p =
      concat (map (step_residuals (time_step (m_options s))) [1..<nat (m_problem_size s)]) \<and>
    (\<forall>rb \<in> set (residual_blocks p).
       rb_cost rb \<noteq> ReferencePathResidual \<longrightarrow>
       hd (rb_parameters rb) \<noteq> TwistBlock 0 \<and> hd (rb_parameters rb) \<noteq> RotationBlock 0) \<and>
    m_kinematic_constraint_residuals s' =
      map (\<lambda>i. 3 * (i - 1) + 2) [1..<nat (m_problem_size s)] \<and>
    length (m_kinematic_constraint_residuals s') = nat (m_problem_size s) - 1 \<and>
    (\<forall>i. 1 \<le> i \<and> i < nat (m_problem_size s) \<longrightarrow>
       residual_blocks p ! (m_kinematic_constraint_residuals s' ! (i - 1)) =
         \<lparr>rb_cost = KinematicConstraintPenaltyResidual (time_step (m_options s)),
          rb_loss = ConstraintPenaltyCoefficientHandle,
          rb_parameters = [RotationBlock i, PositionBlock i, RotationBlock (i - 1),
                           PositionBlock (i - 1), TwistBlock (i - 1)]\<rparr>) \<and>
    (m_problem_size s = 1 \<longrightarrow>
       residual_blocks p = [] \<and> (\<forall>cost_of. is_feasible cost_of p s' = Inr True))"
proof -
  let ?n = "nat (m_problem_size s)"
  let ?dt = "time_step (m_options s)"
  let ?p = "add_steps ?dt [Suc 0..<?n] step0_problem"
  let ?s' = "s\<lparr>m_kinematic_constraint_residuals := map (\<lambda>i. 3 * (i - 1) + 2) [Suc 0..<?n]\<rparr>"
  from assms have ne: "m_rotations s \<noteq> []" "m_positions s \<noteq> []" "m_twists s \<noteq> []"
    by (auto simp: fits_def)
  have built: "build_optimization_problem empty_Problem s = Inr (?p, ?s')"
    by (rule build_optimization_problem_result [OF ne assms(2)])
  have const: "RotationBlock 0 \<in> set (constant_blocks ?p)"
    "PositionBlock 0 \<in> set (constant_blocks ?p)" "TwistBlock 0 \<in> set (constant_blocks ?p)"
    by (rule constant_blocks_add_steps, simp add: step0_problem_def)+
  then have fixed: "\<not> is_variable ?p (RotationBlock 0)" "\<not> is_variable ?p (PositionBlock 0)"
    "\<not> is_variable ?p (TwistBlock 0)"
    by (simp_all add: is_variable_def)
  have res: "residual_blocks ?p = concat (map (step_residuals ?dt) [Suc 0..<?n])"
    by (simp add: residual_blocks_add_steps step0_problem_def)
  have step0: "\<forall>rb \<in> set (residual_blocks ?p).
       rb_cost rb \<noteq> ReferencePathResidual \<longrightarrow>
       hd (rb_parameters rb) \<noteq> TwistBlock 0 \<and> hd (rb_parameters rb) \<noteq> RotationBlock 0"
    unfolding res by (auto simp: step_residuals_def)
  have ids: "m_kinematic_constraint_residuals ?s' = map (\<lambda>i. 3 * (i - 1) + 2) [Suc 0..<?n]"
    "length (m_kinematic_constraint_residuals ?s') = ?n - 1"
    by simp_all
  have kin: "residual_blocks ?p ! (m_kinematic_constraint_residuals ?s' ! (i - 1)) =
         \<lparr>rb_cost = KinematicConstraintPenaltyResidual ?dt,
          rb_loss = ConstraintPenaltyCoefficientHandle,
          rb_parameters = [RotationBlock i, PositionBlock i, RotationBlock (i - 1),
                           PositionBlock (i - 1), TwistBlock (i - 1)]\<rparr>"
    if "1 \<le> i \<and> i < ?n" for i
  proof -
    from that have "i - 1 < ?n - 1" by linarith
    then have "m_kinematic_constraint_residuals ?s' ! (i - 1) = 3 * (i - 1) + 2"
      using that by (simp del: upt_Suc)
    moreover have "concat (map (step_residuals ?dt) [Suc 0..<?n]) ! (3 * (i - 1) + 2) =
        step_residuals ?dt i ! 2"
      using that by (intro nth_concat_steps) (simp_all add: step_residuals_def)
    ultimately show ?thesis
      by (simp add: res step_residuals_def)
  qed
  have trivial: "residual_blocks ?p = [] \<and> (\<forall>cost_of. is_feasible cost_of ?p ?s' = Inr True)"
    if "m_problem_size s = 1"
    using that by (simp add: res is_feasible_no_residuals step0_problem_def)
  from built const fixed res step0 ids kin trivial show ?thesis
    by (intro exI [of _ ?p] exI [of _ ?s']) (simp del: upt_Suc)
qed

section \<open>The lateral velocity\<close>

lemma holds_fixed_diffdrive:
  assumes "twists_diffdrive p" and "is_variable p (TwistBlock i)"
  shows "holds_fixed p (TwistBlock i) 2"
proof -
  from assms(2) obtain e where e: "e \<in> set (parameter_blocks p)" "fst e = TwistBlock i"
    by (auto simp: is_variable_def)
  with assms(1) have "snd (snd e) = Some (SubsetParameterization 3 [2])"
    by (auto simp: twists_diffdrive_def)
  with e show ?thesis
    by (auto simp: holds_fixed_def list_ex_iff)
qed

lemma lateral_write_twist:
  "twists_diffdrive p \<Longrightarrow> lateral_velocity (write_twist p i old new) = lateral_velocity old"
  by (simp add: write_twist_def lateral_velocity_def holds_fixed_diffdrive)

lemma lateral_Solve:
  assumes "twists_diffdrive p" and "\<forall>t \<in> set (m_twists s). lateral_velocity t = v"
  shows "\<forall>t \<in> set (m_twists (Solve eng p s)). lateral_velocity t = v"
  using assms by (auto simp: Solve_def Let_def lateral_write_twist)

lemma Solve_fields:
  "length (m_rotations (Solve eng p s)) = length (m_rotations s)"
  "length (m_positions (Solve eng p s)) = length (m_positions s)"
  "length (m_twists (Solve eng p s)) = length (m_twists s)"
  "m_problem_size (Solve eng p s) = m_problem_size s"
  "m_reference_path_set (Solve eng p s) = m_reference_path_set s"
  "m_reference_rotations (Solve eng p s) = m_reference_rotations s"
  "m_reference_positions (Solve eng p s) = m_reference_positions s"
  "m_kinematic_constraint_residuals (Solve eng p s) = m_kinematic_constraint_residuals s"
  by (simp_all add: Solve_def Let_def)

text \<open>
  Claim C7, as amended. \<^verbatim>\<open>set_initial_twist\<close> stores the angular rate, the forward
  velocity and the lateral velocity of the supplied twist unchanged, and after a
  \<^verbatim>\<open>solve\<close> that follows, every twist of the horizon has the lateral velocity that was
  supplied: initial-guess generation copies it and the optimization holds it fixed. It is
  zero when the supplied lateral velocity is zero.
\<close>

theorem lateral_velocity_held:
  "m_twists (set_initial_twist initial_twist s) =
     [(vec_z (angular (twist initial_twist)), vec_x (linear (twist initial_twist)),
       vec_y (linear (twist initial_twist)))] \<and>
   (\<forall>t \<in> set (m_twists (fst (snd (solve propagate eng cost_of
                                   (set_initial_twist initial_twist s))))).
      lateral_velocity t = vec_y (linear (twist initial_twist)))"
proof -
  let ?s = "set_initial_twist initial_twist s"
  let ?v = "vec_y (linear (twist initial_twist))"
  let ?P = "\<lambda>t. \<forall>x \<in> set (m_twists t). lateral_velocity x = ?v"
  have stored: "m_twists ?s =
     [(vec_z (angular (twist initial_twist)), vec_x (linear (twist initial_twist)), ?v)]"
    by (simp add: set_initial_twist_def)
  then have P0: "?P ?s"
    by (simp add: lateral_velocity_def)
  have "?P (fst (snd (solve propagate eng cost_of ?s)))"
  proof (cases "m_reference_path_set ?s")
    case False
    with P0 show ?thesis by (simp add: solve_def)
  next
    case True
    then show ?thesis
    proof (cases rule: solve_cases [of ?s propagate eng cost_of])
      case (no_guess e)
      with P0 show ?thesis by simp
    next
      case (no_problem s1 e)
      from generate_initial_values_Inr(2) [OF no_problem(1)] P0 have "?P s1"
        by (auto simp: stored)
      with no_problem(3) show ?thesis by simp
    next
      case (iterated s1 ps r)
      from generate_initial_values_Inr(2) [OF iterated(1)] P0 have "?P s1"
        by (auto simp: stored)
      moreover from build_optimization_problem_Inr(2) [OF iterated(2)]
      obtain ks where "snd ps = s1\<lparr>m_kinematic_constraint_residuals := ks\<rparr>" ..
      ultimately have P: "?P (snd ps)"
        by simp
      note dd = build_optimization_problem_Inr(1) [OF iterated(2)]
      have "?P (fst (snd (snd (snd
          (penalty_iterations eng cost_of (fst ps) 0 1 (snd ps) [])))))"
      proof (rule penalty_iterations_preserves [where P = ?P, OF _ P])
        show "\<forall>t c. ?P t \<longrightarrow>
            ?P (Solve eng (fst ps) (t\<lparr>m_constraint_penalty_coefficient_handle := Some c\<rparr>))"
        proof (intro allI impI)
          fix t :: mpc and c :: real
          assume "?P t"
          then have "?P (t\<lparr>m_constraint_penalty_coefficient_handle := Some c\<rparr>)"
            by simp
          then show "?P (Solve eng (fst ps)
              (t\<lparr>m_constraint_penalty_coefficient_handle := Some c\<rparr>))"
            by (rule lateral_Solve [OF dd])
        qed
      qed
      then show ?thesis
        by (simp add: iterated(3,5))
    qed
  qed
  with stored show ?thesis by blast
qed

text \<open>
  The claim as first stated, that the stored step-0 twist has lateral velocity zero
  whatever is supplied, fails for a twist with lateral velocity \<open>1/2\<close>.
\<close>

theorem lateral_velocity_not_zeroed:
  "lateral_velocity (hd (m_twists (set_initial_twist example_twist (Mpc default_Options)))) \<noteq> 0"
  by (simp add: set_initial_twist_def example_twist_def lateral_velocity_def)

lemma solve_horizon_lengths:
  assumes "m_reference_path_set s"
    and "m_rotations s \<noteq> []" and "m_positions s \<noteq> []" and "m_twists s \<noteq> []"
  shows "length (m_rotations (fst (snd (solve propagate eng cost_of s)))) =
           length (m_rotations s) + (nat (m_problem_size s) - 1) \<and>
         length (m_positions (fst (snd (solve propagate eng cost_of s)))) =
           length (m_positions s) + (nat (m_problem_size s) - 1) \<and>
         length (m_twists (fst (snd (solve propagate eng cost_of s)))) =
           length (m_twists s) + (nat (m_problem_size s) - 1) \<and>
         m_problem_size (fst (snd (solve propagate eng cost_of s))) = m_problem_size s \<and>
         m_reference_path_set (fst (snd (solve propagate eng cost_of s))) \<and>
         m_reference_rotations (fst (snd (solve propagate eng cost_of s))) =
           m_reference_rotations s \<and>
         m_reference_positions (fst (snd (solve propagate eng cost_of s))) =
           m_reference_positions s"
    (is "?P (fst (snd (solve propagate eng cost_of s)))")
  using assms(1)
proof (cases rule: solve_cases [of s propagate eng cost_of])
  case (no_guess e)
  with generate_initial_values_result [OF assms(2-4), of propagate] show ?thesis
    by simp
next
  case (no_problem s1 e)
  from generate_initial_values_Inr [OF no_problem(1)] assms(1) have "?P s1"
    by simp
  with no_problem(3) show ?thesis by simp
next
  case (iterated s1 ps r)
  from generate_initial_values_Inr [OF iterated(1)] assms(1) have "?P s1"
    by simp
  moreover from build_optimization_problem_Inr(2) [OF iterated(2)]
  obtain ks where "snd ps = s1\<lparr>m_kinematic_constraint_residuals := ks\<rparr>" ..
  ultimately have P: "?P (snd ps)"
    by simp
  have "?P (fst (snd (snd (snd (penalty_iterations eng cost_of (fst ps) 0 1 (snd ps) [])))))"
    by (rule penalty_iterations_preserves [where P = ?P, OF _ P]) (simp add: Solve_fields)
  then show ?thesis
    by (simp add: iterated(3,5))
qed

section \<open>The example inputs evaluated\<close>

lemmas example_defs = example_state_def example_path_def example_pose_def example_poses_def
  example_from_quaternion_def Mpc_def Matrix2d_Identity_def Vector2d_Zero_def
  Vector3d_Zero_def empty_Header_def

lemma example_state_eq:
  "2 \<le> max_num_poses options \<Longrightarrow>
   example_state options example_poses =
     \<lparr>m_options = options,
      m_rotations = [(1, 0, 0, 1)], m_positions = [(0, 0)],
      m_reference_rotations = [(1, 0, 0, 1), (1, 0, 0, 1)],
      m_reference_positions = [(0, 0), (1, 0)], m_twists = [(0, 0, 0)],
      m_reference_path_set = True, m_problem_size = 2,
      m_constraint_penalty_coefficient_handle = None,
      m_kinematic_constraint_residuals = []\<rparr>"
  by (simp add: example_defs set_reference_path_def Let_def int_of_size_t_def
      store_reference_pose_def upt_conv_Cons min_def)

lemma example_state_ready:
  assumes "2 \<le> max_num_poses options"
  shows "m_reference_path_set (example_state options example_poses)"
    and "mpc_invariant (example_state options example_poses)"
    and "m_options (example_state options example_poses) = options"
    and "m_problem_size (example_state options example_poses) = 2"
  by (simp_all add: example_state_eq [OF assms] mpc_invariant_def)

lemma example_initial_guess:
  assumes "2 \<le> max_num_poses options"
  shows "initial_guess example_propagate (example_state options example_poses) =
     \<lparr>m_options = options,
      m_rotations = [(1, 0, 0, 1), (1, 0, 0, 1)], m_positions = [(0, 0), (0, 0)],
      m_reference_rotations = [(1, 0, 0, 1), (1, 0, 0, 1)],
      m_reference_positions = [(0, 0), (1, 0)], m_twists = [(0, 0, 0), (0, 0, 0)],
      m_reference_path_set = True, m_problem_size = 2,
      m_constraint_penalty_coefficient_handle = None,
      m_kinematic_constraint_residuals = []\<rparr>"
  by (simp add: example_state_eq [OF assms] initial_guess_def generate_initial_values_def
      example_propagate_def forward_velocity_def lateral_velocity_def upt_conv_Cons)

lemma example_built_problem:
  assumes "2 \<le> max_num_poses options"
  shows "built_problem example_propagate (example_state options example_poses) =
     \<lparr>parameter_blocks =
        [(RotationBlock 0, 4, Some Rotation2DParameterization),
         (PositionBlock 0, 2, None),
         (TwistBlock 0, 3, Some (SubsetParameterization 3 [2])),
         (RotationBlock 1, 4, Some Rotation2DParameterization),
         (PositionBlock 1, 2, None),
         (ReferenceRotationBlock 1, 4, Some Rotation2DParameterization),
         (ReferencePositionBlock 1, 2, None),
         (TwistBlock 1, 3, Some (SubsetParameterization 3 [2]))],
      constant_blocks =
        [RotationBlock 0, PositionBlock 0, TwistBlock 0,
         ReferenceRotationBlock 1, ReferencePositionBlock 1],
      residual_blocks =
        [\<lparr>rb_cost = ReferencePathResidual, rb_loss = ReferenceLossFunction,
          rb_parameters = [ReferenceRotationBlock 1, ReferencePositionBlock 1,
                           RotationBlock 1, PositionBlock 1]\<rparr>,
         \<lparr>rb_cost = VelocityChangeResidual, rb_loss = VelocityLossFunction,
          rb_parameters = [TwistBlock 1, TwistBlock 0]\<rparr>,
         \<lparr>rb_cost = KinematicConstraintPenaltyResidual (time_step options),
          rb_loss = ConstraintPenaltyCoefficientHandle,
          rb_parameters = [RotationBlock 1, PositionBlock 1, RotationBlock 0,
                           PositionBlock 0, TwistBlock 0]\<rparr>]\<rparr>"
  by (simp add: build_after_initial_guess(2) [OF example_state_ready(2) [OF assms]]
      example_state_ready [OF assms] upt_conv_Cons add_step_def problem_calls Let_def
      step0_problem_def)

lemma example_built_state:
  assumes "2 \<le> max_num_poses options"
  shows "built_state example_propagate (example_state options example_poses) =
     \<lparr>m_options = options,
      m_rotations = [(1, 0, 0, 1), (1, 0, 0, 1)], m_positions = [(0, 0), (0, 0)],
      m_reference_rotations = [(1, 0, 0, 1), (1, 0, 0, 1)],
      m_reference_positions = [(0, 0), (1, 0)], m_twists = [(0, 0, 0), (0, 0, 0)],
      m_reference_path_set = True, m_problem_size = 2,
      m_constraint_penalty_coefficient_handle = None,
      m_kinematic_constraint_residuals = [2]\<rparr>"
  by (simp add: build_after_initial_guess(3) [OF example_state_ready(2) [OF assms]]
      example_state_ready [OF assms] example_initial_guess [OF assms] upt_conv_Cons)

lemma penalty_state_fields:
  "length (m_rotations (penalty_state eng p s j)) = length (m_rotations s)"
  "length (m_positions (penalty_state eng p s j)) = length (m_positions s)"
  "length (m_twists (penalty_state eng p s j)) = length (m_twists s)"
  "m_kinematic_constraint_residuals (penalty_state eng p s j) =
     m_kinematic_constraint_residuals s"
  by (induction j) (simp_all add: Solve_fields)

text \<open>
  The recorded blocks are the kinematic-constraint blocks of the problem, over elements
  the buffers hold: they evaluate whenever the functor does.
\<close>

lemma costs_evaluated_penalty_state:
  assumes "mpc_invariant s"
    and "\<forall>vs. length vs = 5 \<longrightarrow>
           cost_of (KinematicConstraintPenaltyResidual (time_step (m_options s))) vs \<noteq> None"
  shows "costs_evaluated cost_of (built_problem propagate s)
           (penalty_state eng (built_problem propagate s) (built_state propagate s) j)"
proof -
  let ?N = "nat (m_problem_size s)"
  let ?t = "penalty_state eng (built_problem propagate s) (built_state propagate s) j"
  let ?dt = "time_step (m_options s)"
  from assms(1) have ne: "m_rotations s \<noteq> []" "m_positions s \<noteq> []" "m_twists s \<noteq> []"
    by (simp_all add: mpc_invariant_def)
  then have pos: "0 < length (m_rotations s)" "0 < length (m_positions s)"
    "0 < length (m_twists s)"
    by simp_all
  have blocks: "residual_blocks (built_problem propagate s) =
      concat (map (step_residuals ?dt) [Suc 0..<?N])"
    by (simp add: build_after_initial_guess(2) [OF assms(1)] residual_blocks_add_steps
        step0_problem_def)
  have len: "length (m_rotations ?t) = length (m_rotations s) + (?N - 1)"
    "length (m_positions ?t) = length (m_positions s) + (?N - 1)"
    "length (m_twists ?t) = length (m_twists s) + (?N - 1)"
    by (simp_all add: penalty_state_fields built_state_fields [OF assms(1)]
        initial_guess_fields [OF ne])
  have "EvaluateResidualBlock cost_of (built_problem propagate s) ?t (3 * (i - 1) + 2) \<noteq> None"
    if i: "1 \<le> i" "i < ?N" for i
  proof -
    have in_range: "3 * (i - 1) + 2 < length (residual_blocks (built_problem propagate s))"
      using i by (simp add: blocks length_step_residuals)
    have "residual_blocks (built_problem propagate s) ! (3 * (i - 1) + 2) =
        step_residuals ?dt i ! 2"
      unfolding blocks
      by (rule nth_concat_steps [OF _ i]) (simp_all add: step_residuals_def)
    then have nth: "residual_blocks (built_problem propagate s) ! (3 * (i - 1) + 2) =
        \<lparr>rb_cost = KinematicConstraintPenaltyResidual ?dt,
         rb_loss = ConstraintPenaltyCoefficientHandle,
         rb_parameters = [RotationBlock i, PositionBlock i, RotationBlock (i - 1),
                          PositionBlock (i - 1), TwistBlock (i - 1)]\<rparr>"
      by (simp add: step_residuals_def numeral_2_eq_2)
    from i pos have "i < length (m_rotations ?t)" "i < length (m_positions ?t)"
      "i - 1 < length (m_rotations ?t)" "i - 1 < length (m_positions ?t)"
      "i - 1 < length (m_twists ?t)"
      unfolding len by linarith+
    then show ?thesis
      using assms(2) in_range
      by (simp add: EvaluateResidualBlock_def value_of_block_def Let_def
          nth [unfolded One_nat_def, simplified])
  qed
  then show ?thesis
    by (auto simp add: costs_evaluated_def penalty_state_fields built_state_fields [OF assms(1)])
qed

lemma example_constant_evaluators:
  assumes "2 \<le> max_num_poses options"
    and "m_kinematic_constraint_residuals t = [2]"
    and "length (m_rotations t) = 2" and "length (m_positions t) = 2"
    and "length (m_twists t) = 2"
    and "0 \<le> max_constraint_cost (m_options t)" and "max_constraint_cost (m_options t) < 1"
  shows "is_feasible example_evaluator_one
           (built_problem example_propagate (example_state options example_poses)) t =
         Inr False"
    and "is_feasible example_evaluator_zero
           (built_problem example_propagate (example_state options example_poses)) t =
         Inr True"
  using assms(2-)
  by (simp_all add: example_built_problem [OF assms(1)] is_feasible_def
      EvaluateResidualBlock_def value_of_block_def Let_def example_evaluator_one_def
      example_evaluator_zero_def)

lemma example_constant_evaluators_penalty_state:
  assumes "2 \<le> max_num_poses options"
    and "0 \<le> max_constraint_cost options" and "max_constraint_cost options < 1"
  shows "is_feasible example_evaluator_one
           (built_problem example_propagate (example_state options example_poses))
           (penalty_state eng
              (built_problem example_propagate (example_state options example_poses))
              (built_state example_propagate (example_state options example_poses)) j) =
         Inr False"
    and "is_feasible example_evaluator_zero
           (built_problem example_propagate (example_state options example_poses))
           (penalty_state eng
              (built_problem example_propagate (example_state options example_poses))
              (built_state example_propagate (example_state options example_poses)) j) =
         Inr True"
  using assms(2,3)
  by (intro example_constant_evaluators [OF assms(1)];
      simp add: penalty_state_fields m_options_penalty_state example_built_state [OF assms(1)])+

lemma example_max_num_poses:
  "2 \<le> max_num_poses default_Options" "2 \<le> max_num_poses (example_options m f)"
  by (simp_all add: default_Options_def example_options_def)

lemma example_penalty_state_1:
  "penalty_state example_engine
     (built_problem example_propagate (example_state default_Options example_poses))
     (built_state example_propagate (example_state default_Options example_poses)) (Suc 0) =
   \<lparr>m_options = default_Options,
    m_rotations = [(1, 0, 0, 1), (1, 0, 0, 1)], m_positions = [(0, 0), (1, 0)],
    m_reference_rotations = [(1, 0, 0, 1), (1, 0, 0, 1)],
    m_reference_positions = [(0, 0), (1, 0)], m_twists = [(0, 0, 0), (0, 1, 0)],
    m_reference_path_set = True, m_problem_size = 2,
    m_constraint_penalty_coefficient_handle = Some 1,
    m_kinematic_constraint_residuals = [2]\<rparr>"
  by (simp add: example_built_problem example_built_state example_max_num_poses
      Solve_def is_variable_def holds_fixed_def write_twist_def example_engine_def
      Let_def upt_conv_Cons Matrix2d_Identity_def)

lemma example_penalty_state_2:
  "penalty_state example_engine
     (built_problem example_propagate (example_state default_Options example_poses))
     (built_state example_propagate (example_state default_Options example_poses))
     (Suc (Suc 0)) =
   \<lparr>m_options = default_Options,
    m_rotations = [(1, 0, 0, 1), (1, 0, 0, 1)], m_positions = [(0, 0), (5, 0)],
    m_reference_rotations = [(1, 0, 0, 1), (1, 0, 0, 1)],
    m_reference_positions = [(0, 0), (1, 0)], m_twists = [(0, 0, 0), (0, 1, 0)],
    m_reference_path_set = True, m_problem_size = 2,
    m_constraint_penalty_coefficient_handle = Some 5,
    m_kinematic_constraint_residuals = [2]\<rparr>"
  unfolding penalty_state.simps(2) [of _ _ _ "Suc 0"] example_penalty_state_1
  by (simp add: example_built_problem example_built_state example_state_ready
      example_max_num_poses Solve_def is_variable_def holds_fixed_def write_twist_def
      example_engine_def Let_def upt_conv_Cons Matrix2d_Identity_def)
     (simp add: default_Options_def)

lemma example_feasibility:
  "is_feasible example_evaluator
     (built_problem example_propagate (example_state default_Options example_poses))
     (penalty_state example_engine
        (built_problem example_propagate (example_state default_Options example_poses))
        (built_state example_propagate (example_state default_Options example_poses))
        (Suc 0)) = Inr False"
  "is_feasible example_evaluator
     (built_problem example_propagate (example_state default_Options example_poses))
     (penalty_state example_engine
        (built_problem example_propagate (example_state default_Options example_poses))
        (built_state example_propagate (example_state default_Options example_poses))
        (Suc (Suc 0))) = Inr True"
  unfolding example_penalty_state_1 example_penalty_state_2
  by (simp_all add: example_built_problem example_max_num_poses is_feasible_def
      EvaluateResidualBlock_def value_of_block_def Let_def example_evaluator_def
      default_Options_def)

lemma example_costs:
  "costs_evaluated example_evaluator
     (built_problem example_propagate (example_state default_Options example_poses))
     (penalty_state example_engine
        (built_problem example_propagate (example_state default_Options example_poses))
        (built_state example_propagate (example_state default_Options example_poses))
        (Suc 0))"
  "\<not> feasible_by_costs example_evaluator
     (built_problem example_propagate (example_state default_Options example_poses))
     (penalty_state example_engine
        (built_problem example_propagate (example_state default_Options example_poses))
        (built_state example_propagate (example_state default_Options example_poses))
        (Suc 0))"
  "feasible_by_costs example_evaluator
     (built_problem example_propagate (example_state default_Options example_poses))
     (penalty_state example_engine
        (built_problem example_propagate (example_state default_Options example_poses))
        (built_state example_propagate (example_state default_Options example_poses))
        (Suc (Suc 0)))"
  unfolding example_penalty_state_1 example_penalty_state_2
  by (simp_all add: example_built_problem example_max_num_poses costs_evaluated_def
      feasible_by_costs_def EvaluateResidualBlock_def value_of_block_def Let_def
      example_evaluator_def default_Options_def)

lemma example_costs_one:
  assumes "2 \<le> max_num_poses options"
    and "0 \<le> max_constraint_cost options" and "max_constraint_cost options < 1"
  shows "costs_evaluated example_evaluator_one
           (built_problem example_propagate (example_state options example_poses))
           (penalty_state eng
              (built_problem example_propagate (example_state options example_poses))
              (built_state example_propagate (example_state options example_poses)) j)"
    and "\<not> feasible_by_costs example_evaluator_one
           (built_problem example_propagate (example_state options example_poses))
           (penalty_state eng
              (built_problem example_propagate (example_state options example_poses))
              (built_state example_propagate (example_state options example_poses)) j)"
  using assms(2,3)
  by (simp_all add: example_built_problem [OF assms(1)] costs_evaluated_def
      feasible_by_costs_def EvaluateResidualBlock_def value_of_block_def Let_def
      example_evaluator_one_def penalty_state_fields m_options_penalty_state
      example_built_state [OF assms(1)])

theorem solve_penalty_iterations_witness:
  "fst (solve example_propagate example_engine example_evaluator
          (example_state default_Options example_poses)) = None \<and>
   length (engine_coefficients (snd (snd
     (solve example_propagate example_engine example_evaluator
        (example_state default_Options example_poses))))) = 2 \<and>
   length (engine_coefficients (snd (snd
     (solve example_propagate example_engine example_evaluator_one
        (example_state default_Options example_poses))))) = 8 \<and>
   engine_coefficients (snd (snd
     (solve example_propagate example_engine example_evaluator
        (example_state (example_options 0 5) example_poses)))) = []"
proof -
  let ?s = "example_state default_Options example_poses"
  note ready = example_state_ready [OF example_max_num_poses(1)]
  have first: "1 \<le> Suc (Suc 0) \<and>
      int (Suc (Suc 0)) \<le> max_penalty_iterations (m_options ?s) \<and>
      (\<forall>j. 1 \<le> j \<and> j < Suc (Suc 0) \<longrightarrow>
         costs_evaluated example_evaluator (built_problem example_propagate ?s)
           (penalty_state example_engine (built_problem example_propagate ?s)
              (built_state example_propagate ?s) j) \<and>
         \<not> feasible_by_costs example_evaluator (built_problem example_propagate ?s)
           (penalty_state example_engine (built_problem example_propagate ?s)
              (built_state example_propagate ?s) j)) \<and>
      feasible_by_costs example_evaluator (built_problem example_propagate ?s)
        (penalty_state example_engine (built_problem example_propagate ?s)
           (built_state example_propagate ?s) (Suc (Suc 0)))"
  proof (intro conjI allI impI)
    fix j :: nat
    assume "1 \<le> j \<and> j < Suc (Suc 0)"
    then have j: "j = Suc 0" by simp
    show "costs_evaluated example_evaluator (built_problem example_propagate ?s)
           (penalty_state example_engine (built_problem example_propagate ?s)
              (built_state example_propagate ?s) j)"
      unfolding j by (rule example_costs(1))
    show "\<not> feasible_by_costs example_evaluator (built_problem example_propagate ?s)
           (penalty_state example_engine (built_problem example_propagate ?s)
              (built_state example_propagate ?s) j)"
      unfolding j by (rule example_costs(2))
  next
    show "int (Suc (Suc 0)) \<le> max_penalty_iterations (m_options ?s)"
      unfolding ready(3) by (simp add: default_Options_def)
  next
    show "1 \<le> Suc (Suc 0)" by simp
  qed (rule example_costs(3))
  have never: "\<forall>j. 1 \<le> j \<and> int j \<le> max_penalty_iterations (m_options ?s) \<longrightarrow>
      costs_evaluated example_evaluator_one (built_problem example_propagate ?s)
        (penalty_state example_engine (built_problem example_propagate ?s)
           (built_state example_propagate ?s) j) \<and>
      \<not> feasible_by_costs example_evaluator_one (built_problem example_propagate ?s)
        (penalty_state example_engine (built_problem example_propagate ?s)
           (built_state example_propagate ?s) j)"
    using example_costs_one [OF example_max_num_poses(1)]
    by (simp add: default_Options_def)
  let ?z = "example_state (example_options 0 5) example_poses"
  note ready0 = example_state_ready [OF example_max_num_poses(2), of 0 5]
  have zero: "max_penalty_iterations (m_options ?z) \<le> 0"
    unfolding ready0(3) by (simp add: example_options_def)
  from solve_penalty_iterations [OF ready(1,2), of example_evaluator example_propagate
      example_engine, THEN conjunct1, THEN spec, of "Suc (Suc 0)", THEN mp, OF first]
  have "fst (solve example_propagate example_engine example_evaluator ?s) = None"
    "length (engine_coefficients (snd (snd
       (solve example_propagate example_engine example_evaluator ?s)))) = 2"
    by simp_all
  moreover
  from solve_penalty_iterations [OF ready(1,2), of example_evaluator_one example_propagate
      example_engine] never
  have "length (engine_coefficients (snd (snd
       (solve example_propagate example_engine example_evaluator_one ?s)))) =
     nat (max_penalty_iterations (m_options ?s))"
    by blast
  then have "length (engine_coefficients (snd (snd
       (solve example_propagate example_engine example_evaluator_one ?s)))) = 8"
    unfolding ready(3) by (simp add: default_Options_def)
  moreover
  from solve_penalty_iterations [OF ready0(1,2), of example_evaluator example_propagate
      example_engine] zero
  have "engine_coefficients (snd (snd
       (solve example_propagate example_engine example_evaluator ?z))) = []"
    by simp
  ultimately show ?thesis by simp
qed

section \<open>Runs on the example inputs\<close>

theorem solve_without_reference_path_witness:
  "solve example_propagate example_engine example_evaluator (Mpc default_Options) =
     (Some ReferencePathNotSet, Mpc default_Options, [RosError error_text])"
  using solve_without_reference_path [of "Mpc default_Options" example_propagate
      example_engine example_evaluator]
  by (simp add: Mpc_def)

theorem generate_initial_values_consistent_witness:
  "\<exists>s'. generate_initial_values example_propagate
           (set_initial_twist example_twist (example_state default_Options example_poses)) =
         Inr s' \<and>
        length (m_rotations s') = 2 \<and> length (m_positions s') = 2 \<and>
        m_twists s' ! 0 = (1 / 10, 1, 1 / 2) \<and> m_twists s' ! 1 = (1 / 10, 1, 1 / 2) \<and>
        pose_at s' 1 = example_propagate (pose_at s' 0) (1 / 10, 1, 1 / 2) (1 / 100) \<and>
        kinematic_consistency_residual example_manifold_minus example_propagate (1 / 100)
          (m_rotations s' ! 1) (m_positions s' ! 1)
          (m_rotations s' ! 0) (m_positions s' ! 0) (m_twists s' ! 0) = Vector3d_Zero"
proof -
  let ?s = "set_initial_twist example_twist (example_state default_Options example_poses)"
  have s: "m_rotations ?s = [(1, 0, 0, 1)]" "m_positions ?s = [(0, 0)]"
    "m_twists ?s = [(1 / 10, 1, 1 / 2)]" "1 \<le> m_problem_size ?s"
    "nat (m_problem_size ?s) = 2" "time_step (m_options ?s) = 1 / 100"
    by (simp_all add: set_initial_twist_def example_state_eq example_max_num_poses
        example_twist_def, simp add: default_Options_def)
  have minus: "\<forall>q. example_manifold_minus q q = Vector3d_Zero"
    by (simp add: example_manifold_minus_def Vector3d_Zero_def)
  from generate_initial_values_consistent [where manifold_minus = example_manifold_minus
      and propagate = example_propagate, OF s(1-4) minus]
  obtain s' where s': "generate_initial_values example_propagate ?s = Inr s'"
    "length (m_rotations s') = nat (m_problem_size ?s)"
    "length (m_positions s') = nat (m_problem_size ?s)"
    "\<forall>i < nat (m_problem_size ?s). m_twists s' ! i = (1 / 10, 1, 1 / 2)"
    "\<forall>i. 1 \<le> i \<and> i < nat (m_problem_size ?s) \<longrightarrow>
       pose_at s' i =
         example_propagate (pose_at s' (i - 1)) (1 / 10, 1, 1 / 2) (time_step (m_options ?s))"
    "\<forall>i. 1 \<le> i \<and> i < nat (m_problem_size ?s) \<longrightarrow>
       kinematic_consistency_residual example_manifold_minus example_propagate
         (time_step (m_options ?s))
         (m_rotations s' ! i) (m_positions s' ! i)
         (m_rotations s' ! (i - 1)) (m_positions s' ! (i - 1)) (m_twists s' ! (i - 1)) =
       Vector3d_Zero"
    by blast
  from s'(4) have "m_twists s' ! 0 = (1 / 10, 1, 1 / 2)" "m_twists s' ! 1 = (1 / 10, 1, 1 / 2)"
    unfolding s(5) by simp_all
  moreover from s'(5) [THEN spec, of 1]
  have "pose_at s' 1 = example_propagate (pose_at s' 0) (1 / 10, 1, 1 / 2) (1 / 100)"
    unfolding s(5,6) by simp
  moreover from s'(6) [THEN spec, of 1]
  have "kinematic_consistency_residual example_manifold_minus example_propagate (1 / 100)
          (m_rotations s' ! 1) (m_positions s' ! 1)
          (m_rotations s' ! 0) (m_positions s' ! 0) (m_twists s' ! 0) = Vector3d_Zero"
    unfolding s(5,6) by simp
  ultimately show ?thesis
    using s'(1-3) unfolding s(5) by blast
qed


lemma example_never_feasible:
  "\<forall>j. 1 \<le> j \<and> int j \<le> M \<longrightarrow>
     is_feasible example_evaluator_one
       (built_problem example_propagate (example_state (example_options m f) example_poses))
       (penalty_state example_engine
          (built_problem example_propagate (example_state (example_options m f) example_poses))
          (built_state example_propagate (example_state (example_options m f) example_poses))
          j) = Inr False"
  using example_constant_evaluators_penalty_state(1) [OF example_max_num_poses(2), of m f]
  by (simp add: example_options_def default_Options_def)

text \<open>
  The claim C2 as first stated, that the scale never decreases from one iteration to the
  next, fails for a \<^verbatim>\<open>penalty_increase_factor\<close> of \<open>1/2\<close>: with two iterations, neither
  feasible, the scales are \<open>1\<close> and \<open>1/2\<close>.
\<close>

theorem penalty_coefficient_decreases:
  "\<not> sorted (engine_coefficients (snd (snd
       (solve example_propagate example_engine example_evaluator_one
          (example_state (example_options 2 (1 / 2)) example_poses)))))"
proof -
  let ?s = "example_state (example_options 2 (1 / 2)) example_poses"
  note ready = example_state_ready [OF example_max_num_poses(2), of 2 "1 / 2"]
  have never: "\<forall>j. 1 \<le> j \<and> int j \<le> max_penalty_iterations (m_options ?s) \<longrightarrow>
     is_feasible example_evaluator_one (built_problem example_propagate ?s)
       (penalty_state example_engine (built_problem example_propagate ?s)
          (built_state example_propagate ?s) j) = Inr False"
    by (rule example_never_feasible)
  have opts: "nat (max_penalty_iterations (m_options ?s)) = Suc (Suc 0)"
    "penalty_increase_factor (m_options ?s) = 1 / 2"
    unfolding ready(3) by (simp_all add: example_options_def)
  have eq: "engine_coefficients (snd (snd
       (solve example_propagate example_engine example_evaluator_one ?s))) = [1, 1 / 2]"
    unfolding solve_exhausted [OF ready(1,2) never] opts
    by (simp add: engine_coefficients_append engine_coefficients_penalty_log)
  have "\<not> sorted [1, 1 / 2 :: real]"
    unfolding sorted2 by simp
  then show ?thesis
    unfolding eq .
qed

theorem solve_penalty_coefficients_witness:
  "sorted (engine_coefficients (snd (snd
     (solve example_propagate example_engine example_evaluator
        (example_state default_Options example_poses)))))"
proof -
  have "1 \<le> penalty_increase_factor
      (m_options (example_state default_Options example_poses))"
    unfolding example_state_ready(3) [OF example_max_num_poses(1)]
    by (simp add: default_Options_def)
  with solve_penalty_coefficients [of example_propagate example_engine example_evaluator
      "example_state default_Options example_poses"]
  show ?thesis by blast
qed

lemma example_state_single:
  assumes "1 \<le> max_num_poses options"
  shows "m_reference_path_set (example_state options [example_pose 0 0])"
    and "mpc_invariant (example_state options [example_pose 0 0])"
    and "m_options (example_state options [example_pose 0 0]) = options"
    and "m_problem_size (example_state options [example_pose 0 0]) = 1"
  using assms
  by (simp_all add: example_defs set_reference_path_def Let_def int_of_size_t_def
      store_reference_pose_def upt_conv_Cons min_def mpc_invariant_def)

text \<open>
  Claim C6. The claim is that the iteration-limit warning is raised exactly when the
  iterations are used up without reaching feasibility, and not when feasibility is
  reached on the final iteration. The test after the loop compares the iteration count
  with \<^verbatim>\<open>max_penalty_iterations\<close> and cannot tell the two apart: with
  \<^verbatim>\<open>max_penalty_iterations = 1\<close> and a reference path of one pose, where no residual block
  exists and every iteration is feasible, whatever the kinematic model, the engine and
  the residual costs, \<^verbatim>\<open>solve\<close> reports a feasible solution on iteration 1 and then raises
  the warning.
\<close>

theorem warning_after_feasible_final_iteration:
  "snd (snd (solve propagate eng cost_of
     (example_state (example_options 1 5) [example_pose 0 0]))) =
   [EngineSolve 1, RosInfoBriefReport, RosInfoFeasible 1, RosWarnMaxIterations]"
proof -
  let ?s = "example_state (example_options 1 5) [example_pose 0 0]"
  have "1 \<le> max_num_poses (example_options 1 5)"
    by (simp add: example_options_def default_Options_def)
  note ready = example_state_single [OF this]
  have M: "max_penalty_iterations (m_options ?s) = 1"
    unfolding ready(3) by (simp add: example_options_def)
  have "m_kinematic_constraint_residuals (built_state propagate ?s) = []"
    by (simp add: built_state_fields(5) [OF ready(2)] ready(4))
  then have feasible: "is_feasible cost_of (built_problem propagate ?s)
     (penalty_state eng (built_problem propagate ?s) (built_state propagate ?s) 1) = Inr True"
    by (intro is_feasible_no_residuals) (simp only: penalty_state_fields)
  have "solve propagate eng cost_of ?s =
     (None, penalty_state eng (built_problem propagate ?s) (built_state propagate ?s) 1,
      penalty_log (penalty_increase_factor (m_options ?s)) 1 @ [RosInfoFeasible (int 1)] @
      (if max_penalty_iterations (m_options ?s) \<le> int 1 then [RosWarnMaxIterations] else []))"
    by (rule solve_first_feasible [OF ready(1,2) _ _ _ feasible]) (simp_all add: M)
  then show ?thesis
    by (simp add: M penalty_log_def)
qed

theorem solve_iteration_limit_warning_witness:
  "RosWarnMaxIterations \<notin> set (snd (snd
     (solve example_propagate example_engine example_evaluator
        (example_state default_Options example_poses)))) \<and>
   RosWarnMaxIterations \<in> set (snd (snd
     (solve example_propagate example_engine example_evaluator_one
        (example_state (example_options 2 5) example_poses)))) \<and>
   fst (solve example_propagate example_engine example_evaluator_one
        (example_state (example_options 2 5) example_poses)) = None"
proof -
  let ?s = "example_state default_Options example_poses"
  note ready = example_state_ready [OF example_max_num_poses(1)]
  have first: "1 \<le> Suc (Suc 0) \<and>
      int (Suc (Suc 0)) < max_penalty_iterations (m_options ?s) \<and>
      (\<forall>j. 1 \<le> j \<and> j < Suc (Suc 0) \<longrightarrow>
         is_feasible example_evaluator (built_problem example_propagate ?s)
           (penalty_state example_engine (built_problem example_propagate ?s)
              (built_state example_propagate ?s) j) = Inr False) \<and>
      is_feasible example_evaluator (built_problem example_propagate ?s)
        (penalty_state example_engine (built_problem example_propagate ?s)
           (built_state example_propagate ?s) (Suc (Suc 0))) = Inr True"
  proof (intro conjI allI impI)
    fix j :: nat
    assume "1 \<le> j \<and> j < Suc (Suc 0)"
    then have "j = Suc 0" by simp
    then show "is_feasible example_evaluator (built_problem example_propagate ?s)
           (penalty_state example_engine (built_problem example_propagate ?s)
              (built_state example_propagate ?s) j) = Inr False"
      by (simp only: example_feasibility)
  next
    show "int (Suc (Suc 0)) < max_penalty_iterations (m_options ?s)"
      unfolding ready(3) by (simp add: default_Options_def)
  next
    show "1 \<le> Suc (Suc 0)" by simp
  qed (rule example_feasibility(2))
  let ?z = "example_state (example_options 2 5) example_poses"
  note ready' = example_state_ready [OF example_max_num_poses(2), of 2 5]
  have last: "(\<forall>j. 1 \<le> j \<and> int j < max_penalty_iterations (m_options ?z) \<longrightarrow>
         is_feasible example_evaluator_one (built_problem example_propagate ?z)
           (penalty_state example_engine (built_problem example_propagate ?z)
              (built_state example_propagate ?z) j) = Inr False) \<and>
      (1 \<le> max_penalty_iterations (m_options ?z) \<longrightarrow>
         is_feasible example_evaluator_one (built_problem example_propagate ?z)
           (penalty_state example_engine (built_problem example_propagate ?z)
              (built_state example_propagate ?z)
              (nat (max_penalty_iterations (m_options ?z)))) = Inr False)"
  proof (intro conjI impI)
    show "\<forall>j. 1 \<le> j \<and> int j < max_penalty_iterations (m_options ?z) \<longrightarrow>
         is_feasible example_evaluator_one (built_problem example_propagate ?z)
           (penalty_state example_engine (built_problem example_propagate ?z)
              (built_state example_propagate ?z) j) = Inr False"
      using example_never_feasible [of 2 2 5] unfolding ready'(3)
      by (simp add: example_options_def)
    show "is_feasible example_evaluator_one (built_problem example_propagate ?z)
           (penalty_state example_engine (built_problem example_propagate ?z)
              (built_state example_propagate ?z)
              (nat (max_penalty_iterations (m_options ?z)))) = Inr False"
      by (rule example_constant_evaluators_penalty_state(1) [OF example_max_num_poses(2)])
         (simp_all add: example_options_def default_Options_def)
  qed
  from solve_iteration_limit_warning [OF ready(1,2), of example_evaluator example_propagate
      example_engine, THEN conjunct1, THEN spec, of "Suc (Suc 0)", THEN mp, OF first]
  have "RosWarnMaxIterations \<notin> set (snd (snd
     (solve example_propagate example_engine example_evaluator ?s)))" .
  moreover
  from solve_iteration_limit_warning [OF ready'(1,2), of example_evaluator_one
      example_propagate example_engine, THEN conjunct2, THEN spec, of False, THEN mp, OF last]
  have "RosWarnMaxIterations \<in> set (snd (snd
     (solve example_propagate example_engine example_evaluator_one ?z)))"
    "fst (solve example_propagate example_engine example_evaluator_one ?z) = None"
    by simp_all
  ultimately show ?thesis by simp
qed

theorem lateral_velocity_held_witness:
  "m_twists (set_initial_twist example_twist (example_state default_Options example_poses)) =
     [(1 / 10, 1, 1 / 2)] \<and>
   lateral_velocity (m_twists (fst (snd
     (solve example_propagate example_engine example_evaluator
        (set_initial_twist example_twist
           (example_state default_Options example_poses))))) ! 1) = 1 / 2"
proof -
  let ?s = "set_initial_twist example_twist (example_state default_Options example_poses)"
  let ?t = "fst (snd (solve example_propagate example_engine example_evaluator ?s))"
  have s: "m_reference_path_set ?s" "m_rotations ?s \<noteq> []" "m_positions ?s \<noteq> []"
    "m_twists ?s \<noteq> []" "length (m_twists ?s) = 1" "m_problem_size ?s = 2"
    by (simp_all add: set_initial_twist_def example_state_eq example_max_num_poses)
  have "length (m_twists ?t) = 2"
    using solve_horizon_lengths [OF s(1-4), of example_propagate example_engine
        example_evaluator]
    by (simp add: s(5,6))
  then have "m_twists ?t ! 1 \<in> set (m_twists ?t)"
    by simp
  with lateral_velocity_held [of example_twist "example_state default_Options example_poses"
      example_propagate example_engine example_evaluator]
  show ?thesis
    by (simp add: example_twist_def)
qed

text \<open>
  Claim C8. The claim is that after every \<^verbatim>\<open>solve\<close>, also a second one with no setter
  called in between, each horizon buffer has as many elements as the problem size.
  \<^verbatim>\<open>generate_initial_values\<close> appends to the buffers and nothing in \<^verbatim>\<open>solve\<close> clears them:
  for a reference path of two poses, whatever the kinematic model, the engine and the
  residual costs, the second \<^verbatim>\<open>solve\<close> leaves three elements in each buffer while the
  problem size is two.
\<close>

theorem repeated_solve_grows_horizon:
  "m_problem_size (fst (snd (solve propagate eng cost_of
      (fst (snd (solve propagate eng cost_of
         (example_state default_Options example_poses))))))) = 2 \<and>
   length (m_rotations (fst (snd (solve propagate eng cost_of
      (fst (snd (solve propagate eng cost_of
         (example_state default_Options example_poses)))))))) = 3 \<and>
   length (m_positions (fst (snd (solve propagate eng cost_of
      (fst (snd (solve propagate eng cost_of
         (example_state default_Options example_poses)))))))) = 3 \<and>
   length (m_twists (fst (snd (solve propagate eng cost_of
      (fst (snd (solve propagate eng cost_of
         (example_state default_Options example_poses)))))))) = 3"
proof -
  let ?s = "example_state default_Options example_poses"
  let ?t = "fst (snd (solve propagate eng cost_of ?s))"
  have s: "m_reference_path_set ?s" "m_rotations ?s \<noteq> []" "m_positions ?s \<noteq> []"
    "m_twists ?s \<noteq> []"
    and n: "length (m_rotations ?s) = 1" "length (m_positions ?s) = 1"
    "length (m_twists ?s) = 1" "m_problem_size ?s = 2"
    by (simp_all add: example_state_eq example_max_num_poses)
  from solve_horizon_lengths [OF s, of propagate eng cost_of]
  have t: "length (m_rotations ?t) = 2" "length (m_positions ?t) = 2"
    "length (m_twists ?t) = 2" "m_problem_size ?t = 2" "m_reference_path_set ?t"
    by (simp_all add: n)
  then have "m_rotations ?t \<noteq> []" "m_positions ?t \<noteq> []" "m_twists ?t \<noteq> []"
    by auto
  from solve_horizon_lengths [OF t(5) this, of propagate eng cost_of]
  show ?thesis
    by (simp add: t)
qed

text \<open>
  Claim C10. The claim is that every access of \<^verbatim>\<open>get_optimal_path\<close> into the rotation
  and position buffers is in bounds, in particular after \<^verbatim>\<open>set_reference_path\<close> and
  before any \<^verbatim>\<open>solve\<close>. On a fresh optimizer that has been given a reference path of two
  poses, \<^verbatim>\<open>get_optimal_path\<close> reads element 1 of buffers that hold one element.
\<close>

theorem get_optimal_path_before_solve:
  "get_optimal_path to_quaternion (example_state default_Options example_poses) =
     Inl IndexOutOfRange"
  by (simp add: example_state_eq example_max_num_poses get_optimal_path_def read_pose_def
      upt_conv_Cons)

theorem build_optimization_problem_structure_witness:
  "(\<exists>p s'. build_optimization_problem empty_Problem
        (initial_guess example_propagate (example_state default_Options example_poses)) =
        Inr (p, s') \<and>
      RotationBlock 0 \<in> set (constant_blocks p) \<and> \<not> is_variable p (TwistBlock 0) \<and>
      length (residual_blocks p) = 3 \<and>
      m_kinematic_constraint_residuals s' = [2] \<and>
      rb_cost (residual_blocks p ! 2) = KinematicConstraintPenaltyResidual (1 / 100)) \<and>
   (\<exists>p s'. build_optimization_problem empty_Problem
        (example_state default_Options [example_pose 0 0]) = Inr (p, s') \<and>
      residual_blocks p = [] \<and> is_feasible example_evaluator_one p s' = Inr True)"
proof -
  let ?s = "initial_guess example_propagate (example_state default_Options example_poses)"
  note s = example_initial_guess [OF example_max_num_poses(1)]
  have h: "1 \<le> m_problem_size ?s" "fits ?s (nat (m_problem_size ?s))"
    and n: "nat (m_problem_size ?s) = 2" "time_step (m_options ?s) = 1 / 100"
    unfolding s by (simp_all add: fits_def default_Options_def)
  from build_optimization_problem_structure [OF h]
  obtain p s' where two: "build_optimization_problem empty_Problem ?s = Inr (p, s')"
    "RotationBlock 0 \<in> set (constant_blocks p)" "\<not> is_variable p (TwistBlock 0)"
    "residual_blocks p =
       concat (map (step_residuals (time_step (m_options ?s))) [1..<nat (m_problem_size ?s)])"
    "m_kinematic_constraint_residuals s' =
       map (\<lambda>i. 3 * (i - 1) + 2) [1..<nat (m_problem_size ?s)]"
    "\<forall>i. 1 \<le> i \<and> i < nat (m_problem_size ?s) \<longrightarrow>
       residual_blocks p ! (m_kinematic_constraint_residuals s' ! (i - 1)) =
         \<lparr>rb_cost = KinematicConstraintPenaltyResidual (time_step (m_options ?s)),
          rb_loss = ConstraintPenaltyCoefficientHandle,
          rb_parameters = [RotationBlock i, PositionBlock i, RotationBlock (i - 1),
                           PositionBlock (i - 1), TwistBlock (i - 1)]\<rparr>"
    by blast
  have ids: "m_kinematic_constraint_residuals s' = [2]"
    unfolding two(5) n by (simp add: upt_conv_Cons)
  have len: "length (residual_blocks p) = 3"
    unfolding two(4) n by (simp add: upt_conv_Cons step_residuals_def)
  from two(6) [THEN spec, of 1]
  have kin: "rb_cost (residual_blocks p ! 2) = KinematicConstraintPenaltyResidual (1 / 100)"
    unfolding n ids by simp
  let ?t = "example_state default_Options [example_pose 0 0]"
  have t: "?t =
     \<lparr>m_options = default_Options,
      m_rotations = [(1, 0, 0, 1)], m_positions = [(0, 0)],
      m_reference_rotations = [(1, 0, 0, 1)],
      m_reference_positions = [(0, 0)], m_twists = [(0, 0, 0)],
      m_reference_path_set = True, m_problem_size = 1,
      m_constraint_penalty_coefficient_handle = None,
      m_kinematic_constraint_residuals = []\<rparr>"
    by (simp add: example_defs set_reference_path_def Let_def int_of_size_t_def
        store_reference_pose_def upt_conv_Cons min_def)
       (simp add: default_Options_def)
  have h': "1 \<le> m_problem_size ?t" "fits ?t (nat (m_problem_size ?t))"
    and one: "m_problem_size ?t = 1"
    unfolding t by (simp_all add: fits_def)
  from build_optimization_problem_structure [OF h']
  obtain q t' where "build_optimization_problem empty_Problem ?t = Inr (q, t')"
    "m_problem_size ?t = 1 \<longrightarrow>
       residual_blocks q = [] \<and> (\<forall>cost_of. is_feasible cost_of q t' = Inr True)"
    by blast
  with one have "build_optimization_problem empty_Problem ?t = Inr (q, t') \<and>
      residual_blocks q = [] \<and> is_feasible example_evaluator_one q t' = Inr True"
    by blast
  with two(1-3) ids len kin show ?thesis
    by blast
qed

section \<open>Reachable states and reading out the horizon\<close>

lemma mpc_invariant_Mpc: "mpc_invariant (Mpc options)"
  by (simp add: mpc_invariant_def Mpc_def)

lemma mpc_invariant_set_reference_path:
  assumes "mpc_invariant s"
  shows "mpc_invariant (snd (set_reference_path fq reference_path s))"
proof (cases "poses reference_path = []")
  case True
  with assms show ?thesis by (simp add: set_reference_path_def)
next
  case False
  have "nat (min (int_of_size_t (length (poses reference_path)))
      (max_num_poses (m_options s))) \<le> length (poses reference_path)"
    using int_of_size_t_le [of "length (poses reference_path)"] by linarith
  with assms show ?thesis
    by (simp add: set_reference_path_nonempty [OF False refl] mpc_invariant_def)
qed

lemma mpc_invariant_set_initial_pose:
  "mpc_invariant s \<Longrightarrow> mpc_invariant (set_initial_pose fq initial_pose s)"
  by (simp add: mpc_invariant_def set_initial_pose_def)

lemma mpc_invariant_set_initial_twist:
  "mpc_invariant s \<Longrightarrow> mpc_invariant (set_initial_twist initial_twist s)"
  by (simp add: mpc_invariant_def set_initial_twist_def)

lemma mpc_invariant_solve:
  assumes "mpc_invariant s"
  shows "mpc_invariant (fst (snd (solve propagate eng cost_of s)))"
proof (cases "m_reference_path_set s")
  case False
  with assms show ?thesis by (simp add: solve_def)
next
  case True
  from assms have ne: "m_rotations s \<noteq> []" "m_positions s \<noteq> []" "m_twists s \<noteq> []"
    by (simp_all add: mpc_invariant_def)
  from solve_horizon_lengths [OF True ne, of propagate eng cost_of] assms ne
  show ?thesis
    by (auto simp: mpc_invariant_def)
qed

lemma read_poses:
  "n \<le> length (m_rotations s) \<Longrightarrow> n \<le> length (m_positions s) \<Longrightarrow>
   for_each (read_pose to_quaternion s) [0..<n] path =
     Inr (path\<lparr>poses := poses path @ map (stamped_pose to_quaternion s) [0..<n]\<rparr>)"
proof (induction n)
  case 0
  then show ?case by simp
next
  case (Suc n)
  then show ?case
    by (simp add: for_each_append read_pose_def stamped_pose_def)
qed

lemma get_optimal_path_in_range:
  assumes "nat (m_problem_size s) \<le> length (m_rotations s)"
    and "nat (m_problem_size s) \<le> length (m_positions s)"
  shows "get_optimal_path to_quaternion s =
     Inr \<lparr>path_header = \<lparr>stamp = 0, frame_id = ''map''\<rparr>,
          poses = map (stamped_pose to_quaternion s) [0..<nat (m_problem_size s)]\<rparr>"
  by (simp add: get_optimal_path_def read_poses [OF assms])

lemma get_optimal_path_after_solve:
  assumes "m_reference_path_set s" and "mpc_invariant s"
  shows "\<exists>path. get_optimal_path to_quaternion (fst (snd (solve propagate eng cost_of s))) =
           Inr path \<and>
         length (poses path) = nat (m_problem_size s) \<and>
         frame_id (path_header path) = ''map''"
proof -
  let ?t = "fst (snd (solve propagate eng cost_of s))"
  from assms(2) have ne: "m_rotations s \<noteq> []" "m_positions s \<noteq> []" "m_twists s \<noteq> []"
    by (simp_all add: mpc_invariant_def)
  then have "1 \<le> length (m_rotations s)" "1 \<le> length (m_positions s)"
    by (simp_all add: Suc_le_eq)
  with solve_horizon_lengths [OF assms(1) ne, of propagate eng cost_of]
  have "nat (m_problem_size ?t) \<le> length (m_rotations ?t)"
    "nat (m_problem_size ?t) \<le> length (m_positions ?t)"
    "m_problem_size ?t = m_problem_size s"
    by linarith+
  from get_optimal_path_in_range [OF this(1,2), of to_quaternion] this(3)
  show ?thesis by simp
qed

end
